theory Spec2Isabelle
  imports
    Complex_Main
    "HOL-Library.Char_ord"
    "HOL-Library.List_Lexorder"
    "HOL-Library.Product_Lexorder"
    "HOL-Library.Option_ord"
    "HOL-Library.Multiset"
begin

section \<open>The data model of covidtrucker.py\<close>

text \<open>
  The script works on one table of the OWID data set. Of all the columns of the CSV it
  keeps the nine of \<open>cols\<close>, so a row of the model has these nine cells and nothing
  else. A cell that pandas shows as NaN, NaT or None is \<open>None\<close> here. A date is the
  parsed timestamp, counted in days since 1970-01-01; a number is an exact rational (the
  rounding of the 64-bit floats is not modelled). A cell means something only when its
  column is listed in \<open>columns\<close> of the table.
\<close>

type_synonym timestamp = int

record row =
  iso_code :: "string option"
  location :: "string option"
  date :: "timestamp option"
  total_cases :: "rat option"
  new_cases :: "rat option"
  total_deaths :: "rat option"
  new_deaths :: "rat option"
  total_vaccinations :: "rat option"
  people_vaccinated_per_hundred :: "rat option"

record dataframe =
  columns :: "string list"
  rows :: "row list"

datatype metric =
  Total_cases | New_cases | Total_deaths | New_deaths
  | Total_vaccinations | People_vaccinated_per_hundred

text \<open>The column a metric is stored in, and the cell of a row in that column
  (\<open>grp[metric]\<close> in the plotting functions).\<close>

fun metric_name :: "metric \<Rightarrow> string" where
  "metric_name Total_cases = ''total_cases''"
| "metric_name New_cases = ''new_cases''"
| "metric_name Total_deaths = ''total_deaths''"
| "metric_name New_deaths = ''new_deaths''"
| "metric_name Total_vaccinations = ''total_vaccinations''"
| "metric_name People_vaccinated_per_hundred = ''people_vaccinated_per_hundred''"

fun metric_val :: "metric \<Rightarrow> row \<Rightarrow> rat option" where
  "metric_val Total_cases r = total_cases r"
| "metric_val New_cases r = new_cases r"
| "metric_val Total_deaths r = total_deaths r"
| "metric_val New_deaths r = new_deaths r"
| "metric_val Total_vaccinations r = total_vaccinations r"
| "metric_val People_vaccinated_per_hundred r = people_vaccinated_per_hundred r"

text \<open>The exceptions the script can end with.\<close>

datatype error =
  KeyError "string list"
  | FileNotFoundError
  | ParserError
  | RequestException
  | HTTPError nat
  | OSError
  | EOFError

section \<open>1. Data collection and loading\<close>

text \<open>
  What \<open>load_data\<close> sees of the outside: the answer of the server to
  \<open>requests.get(DATA_URL, timeout=10)\<close> (\<open>None\<close> when the call itself raises) and the
  file \<open>owid-covid-data.csv\<close> in the working directory (\<open>None\<close> when there is no such
  file), and what happens when that file is opened for writing and written: it goes
  well; or \<open>open\<close> raises, and the file is as before; or \<open>open\<close> has emptied or created
  the file and \<open>write\<close> raises after some of the bytes, which are then all that the
  file holds.
\<close>

datatype save_outcome = Saved | Open_fails | Write_fails nat

record response =
  status_code :: nat
  content :: string

record env =
  remote :: "response option"
  local_file :: "string option"
  save :: save_outcome

text \<open>What the script prints or shows, in order.\<close>

record line =
  legend :: string
  dashed :: bool
  points :: "(timestamp option \<times> rat option) list"

record region =
  name :: string
  iso_a3 :: "string option"

datatype chart =
  Line_chart string "line list"
  | Dual_axis_chart string "line list" "line list"
  | Choropleth_chart string "(region \<times> rat option) list"

datatype quotient = Finite rat | Pos_inf | Neg_inf | NaN

datatype event =
  Print string
  | Print_remote_failed error
  | Print_loaded nat "string list"
  | Print_filtering nat timestamp "timestamp option"
  | Print_table "(string option \<times> rat option \<times> rat option \<times> quotient) list"
  | Prompt string
  | Show chart

text \<open>\<open>resp.raise_for_status()\<close> raises for the status codes 400 to 599.\<close>

definition raise_for_status :: "response \<Rightarrow> error option" where
  "raise_for_status resp =
     (if 400 \<le> status_code resp \<and> status_code resp < 600
      then Some (HTTPError (status_code resp)) else None)"

text \<open>
  \<open>pd.read_csv(LOCAL_PATH, parse_dates=['date'], low_memory=False)\<close>. The parser of
  pandas is a parameter: \<open>parse\<close> gives the table of a file content, or \<open>None\<close>
  where pandas raises on it (a content that is no CSV, or has no \<open>date\<close> column).
\<close>

definition read_csv :: "(string \<Rightarrow> dataframe option) \<Rightarrow> env \<Rightarrow> error + dataframe" where
  "read_csv parse e =
     (case local_file e of
        None \<Rightarrow> Inl FileNotFoundError
      | Some c \<Rightarrow> (case parse c of None \<Rightarrow> Inl ParserError | Some df \<Rightarrow> Inr df))"

text \<open>
  The \<open>try\<close> block of \<open>load_data\<close>: the result, the files afterwards, the output. An
  exception of \<open>requests.get\<close>, of \<open>raise_for_status\<close>, of \<open>open\<close> or \<open>write\<close>, or of
  \<open>read_csv\<close> ends the block.
\<close>

definition try_remote ::
  "(string \<Rightarrow> dataframe option) \<Rightarrow> env \<Rightarrow> (error + dataframe) \<times> env \<times> event list" where
  "try_remote parse e =
     (case remote e of
        None \<Rightarrow> (Inl RequestException, e, [Print ''Downloading data from OWID...''])
      | Some resp \<Rightarrow>
          (case raise_for_status resp of
             Some err \<Rightarrow> (Inl err, e, [Print ''Downloading data from OWID...''])
           | None \<Rightarrow>
               (case save e of
                  Open_fails \<Rightarrow> (Inl OSError, e, [Print ''Downloading data from OWID...''])
                | Write_fails n \<Rightarrow>
                    (Inl OSError, e\<lparr>local_file := Some (take n (content resp))\<rparr>,
                     [Print ''Downloading data from OWID...''])
                | Saved \<Rightarrow>
                    (let e' = e\<lparr>local_file := Some (content resp)\<rparr> in
                     (read_csv parse e', e',
                      [Print ''Downloading data from OWID...'',
                       Print ''Saved remote CSV to owid-covid-data.csv''])))))"

text \<open>
  \<open>load_data\<close>: any exception of the \<open>try\<close> block is caught (\<open>except Exception\<close>);
  then the local file is read when it exists, and FileNotFoundError is raised when it
  does not.
\<close>

definition load_data ::
  "(string \<Rightarrow> dataframe option) \<Rightarrow> env \<Rightarrow> (error + dataframe) \<times> env \<times> event list" where
  "load_data parse e =
     (case try_remote parse e of
        (Inr df, e', out) \<Rightarrow> (Inr df, e', out)
      | (Inl err, e', out) \<Rightarrow>
          (if local_file e' \<noteq> None
           then (read_csv parse e', e', out @ [Print_remote_failed err])
           else (Inl FileNotFoundError, e', out @ [Print_remote_failed err])))"

text \<open>The words of the specification: the download succeeds, that is, the server
  answers and its answer is no error.\<close>

definition download_succeeds :: "env \<Rightarrow> bool" where
  "download_succeeds e =
     (case remote e of None \<Rightarrow> False | Some resp \<Rightarrow> raise_for_status resp = None)"

section \<open>2. Data cleaning and preparation\<close>

definition cols :: "string list" where
  "cols = [''iso_code'', ''location'', ''date'',
           ''total_cases'', ''new_cases'',
           ''total_deaths'', ''new_deaths'',
           ''total_vaccinations'', ''people_vaccinated_per_hundred'']"

text \<open>\<open>available = [c for c in cols if c in df.columns]\<close>\<close>

definition available :: "dataframe \<Rightarrow> string list" where
  "available df = filter (\<lambda>c. c \<in> set (columns df)) cols"

text \<open>\<open>df[available]\<close>: the table restricted to the listed columns.\<close>

definition select_columns :: "string list \<Rightarrow> dataframe \<Rightarrow> dataframe" where
  "select_columns cs df = df\<lparr>columns := cs\<rparr>"

text \<open>
  \<open>dropna(subset=['date', 'location'])\<close>: pandas raises KeyError, naming the missing
  labels, when a label of the subset is not a column; otherwise it keeps the rows that
  are non-null in both columns, in their order.
\<close>

definition dropna_date_location :: "dataframe \<Rightarrow> error + dataframe" where
  "dropna_date_location df =
     (case filter (\<lambda>c. c \<notin> set (columns df)) [''date'', ''location''] of
        [] \<Rightarrow> Inr (df\<lparr>rows := filter (\<lambda>r. date r \<noteq> None \<and> location r \<noteq> None) (rows df)\<rparr>)
      | missing \<Rightarrow> Inl (KeyError missing))"

text \<open>
  \<open>sort_values(['location', 'date'])\<close>: a stable sort on the two keys, ascending, with
  the null cells of a key after all its values (\<open>na_position='last'\<close>).
\<close>

definition na_last :: "'a option \<Rightarrow> bool \<times> 'a option" where
  "na_last v = (v = None, v)"

definition location_date_key :: "row \<Rightarrow> (bool \<times> string option) \<times> (bool \<times> timestamp option)" where
  "location_date_key r = (na_last (location r), na_last (date r))"

definition sort_values_location_date :: "dataframe \<Rightarrow> dataframe" where
  "sort_values_location_date df = df\<lparr>rows := sort_key location_date_key (rows df)\<rparr>"

text \<open>
  \<open>groupby('location')\<close>: the groups are the rows of each non-null location, in the
  order of the table, and come in ascending order of the location.
\<close>

definition group_keys :: "row list \<Rightarrow> string list" where
  "group_keys rs = sort (remdups (List.map_filter location rs))"

definition group_of :: "row list \<Rightarrow> string \<Rightarrow> row list" where
  "group_of rs k = filter (\<lambda>r. location r = Some k) rs"

definition groupby_location :: "row list \<Rightarrow> (string \<times> row list) list" where
  "groupby_location rs = map (\<lambda>k. (k, group_of rs k)) (group_keys rs)"

text \<open>
  \<open>g.fillna(method='ffill')\<close> on one group: every null cell, in every column, takes
  the cell above it in the group, which has itself been filled already.
\<close>

definition fill_cell :: "'a option \<Rightarrow> 'a option \<Rightarrow> 'a option" where
  "fill_cell prior v = (case v of None \<Rightarrow> prior | Some x \<Rightarrow> Some x)"

definition fill_row :: "row \<Rightarrow> row \<Rightarrow> row" where
  "fill_row prior r =
     \<lparr> iso_code = fill_cell (iso_code prior) (iso_code r),
       location = fill_cell (location prior) (location r),
       date = fill_cell (date prior) (date r),
       total_cases = fill_cell (total_cases prior) (total_cases r),
       new_cases = fill_cell (new_cases prior) (new_cases r),
       total_deaths = fill_cell (total_deaths prior) (total_deaths r),
       new_deaths = fill_cell (new_deaths prior) (new_deaths r),
       total_vaccinations = fill_cell (total_vaccinations prior) (total_vaccinations r),
       people_vaccinated_per_hundred =
         fill_cell (people_vaccinated_per_hundred prior) (people_vaccinated_per_hundred r) \<rparr>"

fun ffill_from :: "row \<Rightarrow> row list \<Rightarrow> row list" where
  "ffill_from prior [] = []"
| "ffill_from prior (r # rs) = fill_row prior r # ffill_from (fill_row prior r) rs"

fun ffill :: "row list \<Rightarrow> row list" where
  "ffill [] = []"
| "ffill (r # rs) = r # ffill_from r rs"

text \<open>
  \<open>df.groupby('location').apply(lambda g: g.fillna(method='ffill')).reset_index(drop=True)\<close>:
  the filled groups one after the other, in the order of their keys, renumbered.
\<close>

definition groupby_ffill :: "dataframe \<Rightarrow> dataframe" where
  "groupby_ffill df = df\<lparr>rows := concat (map (\<lambda>(k, g). ffill g) (groupby_location (rows df)))\<rparr>"

text \<open>The whole cleaning block (lines 101 to 106).\<close>

definition clean :: "dataframe \<Rightarrow> error + dataframe" where
  "clean df =
     (case dropna_date_location (select_columns (available df) df) of
        Inl e \<Rightarrow> Inl e
      | Inr d \<Rightarrow> Inr (groupby_ffill (sort_values_location_date d)))"

text \<open>
  The words of the specification, for the forward fill: the value a column \<open>f\<close> gets in
  the row at position \<open>p\<close> of a group is the most recent non-null value of the
  group at or before \<open>p\<close>, and stays missing when there is none.
\<close>

definition most_recent_non_null :: "'a option list \<Rightarrow> 'a option" where
  "most_recent_non_null vs = (case filter (\<lambda>v. v \<noteq> None) (rev vs) of [] \<Rightarrow> None | v # _ \<Rightarrow> v)"



section \<open>3. Filters: countries and date range\<close>

definition countries :: "string list" where
  "countries = [''United States'', ''India'', ''Brazil'']"

text \<open>\<open>pd.to_datetime('2021-01-01')\<close>, day 18628 after 1970-01-01.\<close>

definition start_date :: timestamp where
  "start_date = 18628"

text \<open>\<open>df['date'].max()\<close>: the largest of the non-null dates, NaT when there is none.\<close>

definition max_date :: "row list \<Rightarrow> timestamp option" where
  "max_date rs = (case List.map_filter date rs of [] \<Rightarrow> None | d # ds \<Rightarrow> Some (fold max ds d))"

text \<open>The three comparisons of the mask; a comparison with a null cell or with NaT is
  false.\<close>

definition isin :: "string option \<Rightarrow> string list \<Rightarrow> bool" where
  "isin v vs = (case v of None \<Rightarrow> False | Some x \<Rightarrow> x \<in> set vs)"

definition date_ge :: "timestamp option \<Rightarrow> timestamp \<Rightarrow> bool" where
  "date_ge v d = (case v of None \<Rightarrow> False | Some x \<Rightarrow> d \<le> x)"

definition date_le :: "timestamp option \<Rightarrow> timestamp option \<Rightarrow> bool" where
  "date_le v d = (case (v, d) of (Some x, Some y) \<Rightarrow> x \<le> y | _ \<Rightarrow> False)"

definition mask :: "dataframe \<Rightarrow> row \<Rightarrow> bool" where
  "mask df r =
     (isin (location r) countries \<and> date_ge (date r) start_date \<and> date_le (date r) (max_date (rows df)))"

definition df_filt :: "dataframe \<Rightarrow> dataframe" where
  "df_filt df = df\<lparr>rows := filter (mask df) (rows df)\<rparr>"

section \<open>4. and 5. The charts\<close>

text \<open>
  A chart is its title and the lines drawn, each line the points of one group in the
  order of the table; axis labels, colours and the layout are left out. \<open>plt.show()\<close>
  of a chart is the event \<open>Show\<close>. Reading a column that the table does not have
  raises KeyError, which happens at the first group: with no group, no column is read.
\<close>

definition first_missing :: "string list \<Rightarrow> dataframe \<Rightarrow> error option" where
  "first_missing cs d =
     (case filter (\<lambda>c. c \<notin> set (columns d)) cs of [] \<Rightarrow> None | c # _ \<Rightarrow> Some (KeyError [c]))"

definition groupby :: "dataframe \<Rightarrow> error + (string \<times> row list) list" where
  "groupby d =
     (if ''location'' \<in> set (columns d) then Inr (groupby_location (rows d))
      else Inl (KeyError [''location'']))"

definition plot_line :: "(row \<Rightarrow> rat option) \<Rightarrow> bool \<Rightarrow> string \<Rightarrow> row list \<Rightarrow> line" where
  "plot_line y ds lbl grp = \<lparr>legend = lbl, dashed = ds, points = map (\<lambda>r. (date r, y r)) grp\<rparr>"

definition plot_time_series :: "dataframe \<Rightarrow> metric \<Rightarrow> string \<Rightarrow> error + chart" where
  "plot_time_series d m ttl =
     (case groupby d of
        Inl e \<Rightarrow> Inl e
      | Inr gs \<Rightarrow>
          (case (if gs = [] then None else first_missing [''date'', metric_name m] d) of
             Some e \<Rightarrow> Inl e
           | None \<Rightarrow>
               Inr (Line_chart ttl (map (\<lambda>(loc, grp). plot_line (metric_val m) False loc grp) gs))))"

definition plot_dual_axis ::
  "dataframe \<Rightarrow> metric \<Rightarrow> metric \<Rightarrow> string \<Rightarrow> string \<Rightarrow> error + chart" where
  "plot_dual_axis d m1 m2 name1 name2 =
     (case groupby d of
        Inl e \<Rightarrow> Inl e
      | Inr gs \<Rightarrow>
          (case (if gs = [] then None
                 else first_missing [''date'', metric_name m1, metric_name m2] d) of
             Some e \<Rightarrow> Inl e
           | None \<Rightarrow>
               Inr (Dual_axis_chart (name1 @ '' & '' @ name2)
                 (map (\<lambda>(loc, grp). plot_line (metric_val m1) False (loc @ '' '' @ name1) grp) gs)
                 (map (\<lambda>(loc, grp). plot_line (metric_val m2) True (loc @ '' '' @ name2) grp) gs))))"

definition plot_death_vs_infection :: "dataframe \<Rightarrow> error + chart" where
  "plot_death_vs_infection d =
     (case groupby d of
        Inl e \<Rightarrow> Inl e
      | Inr gs \<Rightarrow>
          (case (if gs = [] then None
                 else first_missing [''date'', ''new_cases'', ''new_deaths''] d) of
             Some e \<Rightarrow> Inl e
           | None \<Rightarrow>
               Inr (Line_chart ''New Cases vs New Deaths Over Time''
                 (concat (map (\<lambda>(loc, grp).
                    [plot_line new_cases False (loc @ '' New Cases'') grp,
                     plot_line new_deaths True (loc @ '' New Deaths'') grp]) gs)))))"

text \<open>What comes out of a step of the script: its output, and the exception that ended
  it, if one did. \<open>display c k\<close> shows the chart \<open>c\<close> and goes on with \<open>k\<close>.\<close>

definition prepend :: "event list \<Rightarrow> event list \<times> error option \<Rightarrow> event list \<times> error option" where
  "prepend out k = (out @ fst k, snd k)"

definition display ::
  "error + chart \<Rightarrow> event list \<times> error option \<Rightarrow> event list \<times> error option" where
  "display c k = (case c of Inl e \<Rightarrow> ([], Some e) | Inr ch \<Rightarrow> prepend [Show ch] k)"

text \<open>Lines 154 and 155.\<close>

definition vaccination_progress ::
  "dataframe \<Rightarrow> event list \<times> error option \<Rightarrow> event list \<times> error option" where
  "vaccination_progress d k =
     (if ''total_vaccinations'' \<in> set (columns d)
      then display (plot_dual_axis d New_cases Total_vaccinations
             ''Daily New Cases'' ''Total Vaccinations'') k
      else k)"

section \<open>6. The choropleth map\<close>

text \<open>
  \<open>latest\<close>: of every group the rows whose date is the largest date of the group, the
  groups in the order of their keys; then \<open>set_index('iso_code')\<close>, which raises
  KeyError without that column.
\<close>

definition latest_rows :: "row list \<Rightarrow> row list" where
  "latest_rows rs =
     concat (map (\<lambda>(k, g). filter (\<lambda>r. date r \<noteq> None \<and> date r = max_date g) g)
       (groupby_location rs))"

definition latest :: "dataframe \<Rightarrow> error + dataframe" where
  "latest df =
     (case groupby df of
        Inl e \<Rightarrow> Inl e
      | Inr gs \<Rightarrow>
          (case (if gs = [] then None else first_missing [''date''] df) of
             Some e \<Rightarrow> Inl e
           | None \<Rightarrow>
               (case first_missing [''iso_code''] df of
                  Some e \<Rightarrow> Inl e
                | None \<Rightarrow> Inr (df\<lparr>rows := latest_rows (rows df)\<rparr>))))"

text \<open>
  \<open>world.merge(latest.reset_index(), left_on='iso_a3', right_on='iso_code', how='left')\<close>:
  the regions in the order of the world table, each once for every row of \<open>latest\<close>
  with its key, in the order of \<open>latest\<close>, and once with nulls when no row has its key.
  Two null keys are equal in a pandas merge. Of a region the model keeps its name and
  its key.
\<close>

definition null_row :: row where
  "null_row =
     \<lparr> iso_code = None, location = None, date = None, total_cases = None, new_cases = None,
       total_deaths = None, new_deaths = None, total_vaccinations = None,
       people_vaccinated_per_hundred = None \<rparr>"

definition matches :: "row list \<Rightarrow> region \<Rightarrow> row list" where
  "matches lt w = filter (\<lambda>r. iso_code r = iso_a3 w) lt"

definition merge_left :: "region list \<Rightarrow> row list \<Rightarrow> (region \<times> row) list" where
  "merge_left world lt =
     concat (map (\<lambda>w. case matches lt w of [] \<Rightarrow> [(w, null_row)] | ms \<Rightarrow> map (\<lambda>r. (w, r)) ms) world)"

text \<open>\<open>map_df.plot(column='total_cases', ...)\<close>; the base map under it is not modelled.\<close>

definition choropleth :: "region list \<Rightarrow> dataframe \<Rightarrow> error + chart" where
  "choropleth world lt =
     (case first_missing [''total_cases''] lt of
        Some e \<Rightarrow> Inl e
      | None \<Rightarrow>
          Inr (Choropleth_chart ''Global COVID-19 Total Cases''
            (map (\<lambda>(w, r). (w, total_cases r)) (merge_left world (rows lt)))))"

section \<open>7. Insights and reporting\<close>

text \<open>
  A cell of a numeric column is a float64, and the model has its exact value; the two
  zeros of float64 are one value there, the zero that the digits \<open>0\<close> and \<open>0.0\<close> are
  read as. The quotient of two cells is the exact quotient rounded to the nearest
  float64, ties to the even one: with \<open>e\<close> the exponent of the quotient, and \<open>-1022\<close>
  for the smaller ones, the multiple of \<open>2 ^ (e - 52)\<close> nearest to it, and an infinity
  when that is \<open>2 ^ 1024\<close>.
\<close>

function bit_length :: "int \<Rightarrow> nat" where
  "bit_length n = (if n \<le> 0 then 0 else Suc (bit_length (n div 2)))"
  by pat_completeness auto

termination
  by (relation "measure nat") auto

declare bit_length.simps [simp del]

definition pow2 :: "int \<Rightarrow> rat" where
  "pow2 k = (if 0 \<le> k then 2 ^ nat k else 1 / 2 ^ nat (- k))"

text \<open>The exponent of a positive number: the \<open>e\<close> with \<open>2 ^ e \<le> a < 2 ^ (e + 1)\<close>.\<close>

definition floor_log2 :: "rat \<Rightarrow> int" where
  "floor_log2 a =
     (let k = int (bit_length (fst (quotient_of a))) - int (bit_length (snd (quotient_of a)))
      in if pow2 k \<le> a then k else k - 1)"

definition round_half_even :: "rat \<Rightarrow> int" where
  "round_half_even x =
     (let f = \<lfloor>x\<rfloor>; r = x - of_int f
      in if r < 1 / 2 then f else if 1 / 2 < r then f + 1 else if even f then f else f + 1)"

definition round_float64 :: "rat \<Rightarrow> quotient" where
  "round_float64 q =
     (if q = 0 then Finite 0
      else
        (let a = \<bar>q\<bar>;
             u = pow2 (max (floor_log2 a) (- 1022) - 52);
             v = of_int (round_half_even (a / u)) * u
         in if pow2 1024 \<le> v then (if 0 < q then Pos_inf else Neg_inf)
            else Finite (if 0 < q then v else - v)))"

text \<open>
  The division of two float columns: a null operand gives NaN, a zero divisor gives an
  infinity, or NaN for 0/0; nothing is raised.
\<close>

definition float_div :: "rat option \<Rightarrow> rat option \<Rightarrow> quotient" where
  "float_div a b =
     (case (a, b) of
        (Some x, Some y) \<Rightarrow>
          (if y \<noteq> 0 then round_float64 (x / y)
           else if 0 < x then Pos_inf else if x < 0 then Neg_inf else NaN)
      | _ \<Rightarrow> NaN)"

text \<open>\<open>latest['death_rate'] = latest['total_deaths'] / latest['total_cases']\<close>\<close>

definition with_death_rate :: "row list \<Rightarrow> (row \<times> quotient) list" where
  "with_death_rate lt = map (\<lambda>r. (r, float_div (total_deaths r) (total_cases r))) lt"

text \<open>
  \<open>sort_values('total_cases', ascending=False)\<close>: descending, the rows without
  \<open>total_cases\<close> last. Rows with equal \<open>total_cases\<close> are kept in their order here;
  pandas does not promise an order for them with its default sort.
\<close>

definition sort_values_total_cases_desc :: "(row \<times> quotient) list \<Rightarrow> (row \<times> quotient) list" where
  "sort_values_total_cases_desc xs =
     sort_key (\<lambda>x. na_last (map_option uminus (total_cases (fst x)))) xs"

definition top5 :: "row list \<Rightarrow> (row \<times> quotient) list" where
  "top5 lt = take 5 (sort_values_total_cases_desc (with_death_rate lt))"

definition insights ::
  "dataframe \<Rightarrow> event list \<times> error option \<Rightarrow> event list \<times> error option" where
  "insights lt k =
     (case first_missing [''total_deaths'', ''total_cases''] lt of
        Some e \<Rightarrow> ([], Some e)
      | None \<Rightarrow>
          prepend
            [Print ''Top 5 countries by total cases and death rates:'',
             Print_table (map (\<lambda>(r, q). (location r, total_cases r, total_deaths r, q))
               (top5 (rows lt)))] k)"

section \<open>The navigation menu\<close>

definition menu_lines :: "event list" where
  "menu_lines =
     [Print (CHR 0x0A # ''Graph Navigation Menu:''),
      Print ''1. Total Cases Over Time'',
      Print ''2. Total Deaths Over Time'',
      Print ''3. New Cases vs Total Vaccinations'',
      Print ''4. New Cases vs New Deaths'',
      Print ''5. Exit'',
      Prompt ''Enter your choice (1-5): '']"

text \<open>
  \<open>navigation_menu\<close>, on the lines typed at the prompt. One round of the loop prints the
  menu and reads a line; with no line left, \<open>input\<close> raises EOFError.
\<close>

fun navigation_menu :: "dataframe \<Rightarrow> string list \<Rightarrow> event list \<times> error option" where
  "navigation_menu d [] = (menu_lines, Some EOFError)"
| "navigation_menu d (choice # rest) =
     prepend menu_lines
       (if choice = ''1'' then
          display (plot_time_series d Total_cases ''Total Cases Over Time'')
            (navigation_menu d rest)
        else if choice = ''2'' then
          display (plot_time_series d Total_deaths ''Total Deaths Over Time'')
            (navigation_menu d rest)
        else if choice = ''3'' \<and> ''total_vaccinations'' \<in> set (columns d) then
          display (plot_dual_axis d New_cases Total_vaccinations
              ''Daily New Cases'' ''Total Vaccinations'')
            (navigation_menu d rest)
        else if choice = ''4'' then
          display (plot_death_vs_infection d) (navigation_menu d rest)
        else if choice = ''5'' then
          ([Print ''Exiting navigation menu.''], None)
        else
          prepend [Print ''Invalid choice. Please try again.''] (navigation_menu d rest))"

section \<open>The script, from the loaded table on\<close>

definition pipeline :: "region list \<Rightarrow> string list \<Rightarrow> dataframe \<Rightarrow> event list \<times> error option" where
  "pipeline world inputs df0 =
     prepend [Print_loaded (length (rows df0)) (columns df0)]
       (case clean df0 of
          Inl e \<Rightarrow> ([], Some e)
        | Inr df \<Rightarrow>
            prepend [Print_filtering (length countries) start_date (max_date (rows df))]
              (display (plot_time_series (df_filt df) Total_cases ''Total Cases Over Time'')
                (display (plot_time_series (df_filt df) Total_deaths ''Total Deaths Over Time'')
                  (vaccination_progress (df_filt df)
                    (case latest df of
                       Inl e \<Rightarrow> ([], Some e)
                     | Inr lt \<Rightarrow>
                         display (choropleth world lt)
                           (insights lt (navigation_menu (df_filt df) inputs)))))))"

section \<open>Tables for the statements and small tables to run the script on\<close>


text \<open>A row with a key, a location, a date, and its total cases and total deaths.\<close>

definition obs :: "string \<Rightarrow> string \<Rightarrow> timestamp \<Rightarrow> rat option \<Rightarrow> rat option \<Rightarrow> row" where
  "obs code loc d tc td =
     \<lparr> iso_code = Some code, location = Some loc, date = Some d, total_cases = tc,
       new_cases = None, total_deaths = td, new_deaths = None, total_vaccinations = None,
       people_vaccinated_per_hundred = None \<rparr>"

definition two_countries :: dataframe where
  "two_countries =
     \<lparr> columns = [''iso_code'', ''continent'', ''location'', ''date'', ''total_cases'', ''total_deaths''],
       rows =
         [obs ''IND'' ''India'' 18630 None (Some 2),
          obs ''BRA'' ''Brazil'' 18629 (Some 5) None,
          obs ''IND'' ''India'' 18629 (Some 7) None,
          (obs ''XXX'' ''Nowhere'' 18629 (Some 1) None)\<lparr>location := None\<rparr>,
          obs ''BRA'' ''Brazil'' 18630 None None,
          (obs ''IND'' ''India'' 18631 (Some 9) None)\<lparr>date := None\<rparr>] \<rparr>"

definition two_countries_clean :: dataframe where
  "two_countries_clean =
     \<lparr> columns = [''iso_code'', ''location'', ''date'', ''total_cases'', ''total_deaths''],
       rows =
         [obs ''BRA'' ''Brazil'' 18629 (Some 5) None,
          obs ''BRA'' ''Brazil'' 18630 (Some 5) None,
          obs ''IND'' ''India'' 18629 (Some 7) None,
          obs ''IND'' ''India'' 18630 (Some 7) (Some 2)] \<rparr>"

text \<open>A parser for two file contents, and the tables it reads from them.\<close>

definition example_parse :: "string \<Rightarrow> dataframe option" where
  "example_parse c =
     (if c = ''fresh'' then Some two_countries
      else if c = ''stale'' then Some two_countries_clean
      else None)"

text \<open>The words of the specification, for the order of the summary: \<open>a\<close> is at least
  \<open>b\<close>, a missing value counting as the smallest.\<close>

definition total_cases_ge :: "rat option \<Rightarrow> rat option \<Rightarrow> bool" where
  "total_cases_ge a b =
     (case b of None \<Rightarrow> True | Some y \<Rightarrow> (case a of None \<Rightarrow> False | Some x \<Rightarrow> y \<le> x))"

definition two_countries_latest :: dataframe where
  "two_countries_latest =
     \<lparr> columns = [''iso_code'', ''location'', ''date'', ''total_cases'', ''total_deaths''],
       rows =
         [obs ''BRA'' ''Brazil'' 18630 (Some 5) None,
          obs ''IND'' ''India'' 18630 (Some 7) (Some 2)] \<rparr>"

text \<open>Three regions of the world table, and a data set in which the last day of a
  location is recorded twice.\<close>

definition brazil :: region where
  "brazil = \<lparr> name = ''Brazil'', iso_a3 = Some ''BRA'' \<rparr>"

definition usa :: region where
  "usa = \<lparr> name = ''United States of America'', iso_a3 = Some ''USA'' \<rparr>"

definition fiji :: region where
  "fiji = \<lparr> name = ''Fiji'', iso_a3 = Some ''FJI'' \<rparr>"

definition repeated_day :: dataframe where
  "repeated_day =
     \<lparr> columns = [''iso_code'', ''location'', ''date'', ''total_cases'', ''total_deaths''],
       rows =
         [obs ''USA'' ''United States'' 18630 (Some 3) None,
          obs ''USA'' ''United States'' 18630 (Some 4) None] \<rparr>"

text \<open>The dual-axis chart among the events, the prompt of the menu, the columns that
  the charts of the menu read, and a table that has them all.\<close>

fun is_dual_axis :: "event \<Rightarrow> bool" where
  "is_dual_axis (Show (Dual_axis_chart ttl left right)) = True"
| "is_dual_axis _ = False"

definition menu_prompt :: event where
  "menu_prompt = Prompt ''Enter your choice (1-5): ''"

definition menu_columns :: "string list" where
  "menu_columns =
     [''location'', ''date'', ''total_cases'', ''total_deaths'', ''new_cases'', ''new_deaths'']"

definition full_table :: dataframe where
  "full_table =
     \<lparr> columns = [''iso_code'', ''location'', ''date'', ''total_cases'', ''new_cases'',
                  ''total_deaths'', ''new_deaths'', ''total_vaccinations''],
       rows =
         [(obs ''IND'' ''India'' 18629 (Some 7) (Some 2))
            \<lparr>new_cases := Some 1, new_deaths := Some 0, total_vaccinations := Some 10\<rparr>] \<rparr>"

section \<open>The forward fill of one group\<close>


lemma fill_cell_None [simp]: "fill_cell a None = a"
  by (simp add: fill_cell_def)

lemma fill_cell_Some [simp]: "fill_cell a (Some x) = Some x"
  by (simp add: fill_cell_def)

lemma most_recent_non_null_Nil [simp]: "most_recent_non_null [] = None"
  by (simp add: most_recent_non_null_def)



lemma length_ffill_from [simp]: "length (ffill_from a rs) = length rs"
  by (induction rs arbitrary: a) auto









lemma group_of_location: "r \<in> set (group_of s k) \<Longrightarrow> location r = Some k"
  by (simp add: group_of_def)















section \<open>The cleaning step\<close>







section \<open>The filter\<close>


lemma set_map_filter_date: "set (List.map_filter date rs) = {d. \<exists>r\<in>set rs. date r = Some d}"
  by (induction rs) (auto simp: map_filter_simps split: option.splits)

lemma max_date_Some:
  assumes "r \<in> set rs" "date r = Some d"
  shows "max_date rs = Some (Max {d. \<exists>r\<in>set rs. date r = Some d})"
proof -
  from assms have "d \<in> set (List.map_filter date rs)" by (auto simp: set_map_filter_date)
  then obtain x xs where xs: "List.map_filter date rs = x # xs" by (cases "List.map_filter date rs") auto
  have "fold max xs x = Max (set (x # xs))" by (rule Max.set_eq_fold [symmetric])
  also have "\<dots> = Max {d. \<exists>r\<in>set rs. date r = Some d}"
    using set_map_filter_date [of rs] by (simp only: xs)
  finally show ?thesis by (simp add: max_date_def xs)
qed

text \<open>
  Claim C2. A row is in the filtered table exactly when it is a row of the table that
  is filtered, its location is one of United States, India and Brazil, and its date is
  at least 2021-01-01 (day 18628) and at most the largest date present in the table.
\<close>

theorem df_filt_rows:
  "r \<in> set (rows (df_filt df)) \<longleftrightarrow>
     r \<in> set (rows df) \<and>
     (\<exists>l. location r = Some l \<and> l \<in> {''United States'', ''India'', ''Brazil''}) \<and>
     (\<exists>d. date r = Some d \<and> 18628 \<le> d \<and> d \<le> Max {d. \<exists>r'\<in>set (rows df). date r' = Some d})"
proof (cases "r \<in> set (rows df) \<and> date r \<noteq> None")
  case True
  then obtain d where d: "date r = Some d" by auto
  with True have m: "max_date (rows df) = Some (Max {d. \<exists>r'\<in>set (rows df). date r' = Some d})"
    by (intro max_date_Some [of r]) auto
  show ?thesis
    using True d
    by (auto simp: df_filt_def mask_def isin_def date_ge_def date_le_def m countries_def start_date_def
        split: option.splits)
next
  case False
  then show ?thesis
    by (auto simp: df_filt_def mask_def date_ge_def split: option.splits)
qed

theorem df_filt_rows_witness:
  "obs ''BRA'' ''Brazil'' 18629 (Some 5) None \<in> set (rows (df_filt two_countries_clean)) \<and>
   (\<exists>d. date (obs ''BRA'' ''Brazil'' 18629 (Some 5) None) = Some d \<and> 18628 \<le> d \<and>
      d \<le> Max {d. \<exists>r'\<in>set (rows two_countries_clean). date r' = Some d})"
proof -
  have "obs ''BRA'' ''Brazil'' 18629 (Some 5) None \<in> set (rows (df_filt two_countries_clean))"
    by code_simp
  with df_filt_rows [of "obs ''BRA'' ''Brazil'' 18629 (Some 5) None" two_countries_clean]
  show ?thesis by blast
qed

section \<open>Loading\<close>

lemma read_csv_local:
  "read_csv parse e =
     (case local_file e of None \<Rightarrow> Inl FileNotFoundError
      | Some c \<Rightarrow> (case parse c of None \<Rightarrow> Inl ParserError | Some df \<Rightarrow> Inr df))"
  by (simp add: read_csv_def)

lemma read_csv_not_missing: "local_file e = Some c \<Longrightarrow> read_csv parse e \<noteq> Inl FileNotFoundError"
  by (simp add: read_csv_def split: option.splits)

lemma load_data_remote:
  assumes "remote e = Some resp" "raise_for_status resp = None" "save e = Saved"
  shows "load_data parse e =
     (read_csv parse (e\<lparr>local_file := Some (content resp)\<rparr>),
      e\<lparr>local_file := Some (content resp)\<rparr>,
      [Print ''Downloading data from OWID...'', Print ''Saved remote CSV to owid-covid-data.csv'']
      @ (case parse (content resp) of None \<Rightarrow> [Print_remote_failed ParserError] | Some df \<Rightarrow> []))"
  using assms
  by (simp add: load_data_def try_remote_def read_csv_def Let_def split: option.splits)

lemma load_data_fallback:
  assumes "\<not> download_succeeds e \<or> save e = Open_fails"
  shows "\<exists>err. load_data parse e =
     ((if local_file e = None then Inl FileNotFoundError else read_csv parse e), e,
      [Print ''Downloading data from OWID...'', Print_remote_failed err])"
proof (cases "download_succeeds e")
  case False
  then show ?thesis
    by (auto simp: load_data_def try_remote_def download_succeeds_def split: option.splits)
next
  case True
  with assms have "save e = Open_fails" by simp
  with True show ?thesis
    by (auto simp: load_data_def try_remote_def download_succeeds_def split: option.splits)
qed

lemma load_data_cut:
  assumes "remote e = Some resp" "raise_for_status resp = None" "save e = Write_fails n"
  shows "load_data parse e =
     (read_csv parse (e\<lparr>local_file := Some (take n (content resp))\<rparr>),
      e\<lparr>local_file := Some (take n (content resp))\<rparr>,
      [Print ''Downloading data from OWID...'', Print_remote_failed OSError])"
  using assms by (simp add: load_data_def try_remote_def)

text \<open>
  Claim C3, as amended. When the download succeeds and the content is saved,
  \<open>load_data\<close> gives what pandas reads from the downloaded content: its table, or the
  error of the parser. When the download fails, or the file cannot be opened for
  writing, and the local file exists, it gives what pandas reads from the local file.
  When writing the file breaks off, it gives what pandas reads from the part written.
  It raises FileNotFoundError exactly when the download fails or the file cannot be
  opened for writing, and there is no local file.
\<close>

theorem load_data_result:
  "(\<forall>resp. remote e = Some resp \<and> raise_for_status resp = None \<and> save e = Saved \<longrightarrow>
      fst (load_data parse e) =
        (case parse (content resp) of None \<Rightarrow> Inl ParserError | Some df \<Rightarrow> Inr df)) \<and>
   (\<forall>c. (\<not> download_succeeds e \<or> save e = Open_fails) \<and> local_file e = Some c \<longrightarrow>
      fst (load_data parse e) = (case parse c of None \<Rightarrow> Inl ParserError | Some df \<Rightarrow> Inr df)) \<and>
   (\<forall>resp n. remote e = Some resp \<and> raise_for_status resp = None \<and> save e = Write_fails n \<longrightarrow>
      fst (load_data parse e) =
        (case parse (take n (content resp)) of None \<Rightarrow> Inl ParserError | Some df \<Rightarrow> Inr df)) \<and>
   (fst (load_data parse e) = Inl FileNotFoundError \<longleftrightarrow>
      (\<not> download_succeeds e \<or> save e = Open_fails) \<and> local_file e = None)"
proof (intro conjI allI impI)
  fix resp assume "remote e = Some resp \<and> raise_for_status resp = None \<and> save e = Saved"
  then show "fst (load_data parse e) =
        (case parse (content resp) of None \<Rightarrow> Inl ParserError | Some df \<Rightarrow> Inr df)"
    by (simp add: load_data_remote read_csv_def)
next
  fix c assume a: "(\<not> download_succeeds e \<or> save e = Open_fails) \<and> local_file e = Some c"
  then obtain err where "load_data parse e =
     ((if local_file e = None then Inl FileNotFoundError else read_csv parse e), e,
      [Print ''Downloading data from OWID...'', Print_remote_failed err])"
    using load_data_fallback by blast
  with a show "fst (load_data parse e) = (case parse c of None \<Rightarrow> Inl ParserError | Some df \<Rightarrow> Inr df)"
    by (simp add: read_csv_def)
next
  fix resp n
  assume "remote e = Some resp \<and> raise_for_status resp = None \<and> save e = Write_fails n"
  then show "fst (load_data parse e) =
        (case parse (take n (content resp)) of None \<Rightarrow> Inl ParserError | Some df \<Rightarrow> Inr df)"
    by (simp add: load_data_cut read_csv_def)
next
  show "fst (load_data parse e) = Inl FileNotFoundError \<longleftrightarrow>
      (\<not> download_succeeds e \<or> save e = Open_fails) \<and> local_file e = None"
  proof (cases "\<not> download_succeeds e \<or> save e = Open_fails")
    case True
    then obtain err where "load_data parse e =
       ((if local_file e = None then Inl FileNotFoundError else read_csv parse e), e,
        [Print ''Downloading data from OWID...'', Print_remote_failed err])"
      using load_data_fallback by blast
    with True show ?thesis by (auto dest: read_csv_not_missing)
  next
    case False
    then obtain resp where r: "remote e = Some resp" "raise_for_status resp = None"
      by (auto simp: download_succeeds_def split: option.splits)
    from False have "save e = Saved \<or> (\<exists>n. save e = Write_fails n)"
      by (cases "save e") simp_all
    then have "fst (load_data parse e) \<noteq> Inl FileNotFoundError"
    proof
      assume s: "save e = Saved"
      have "read_csv parse (e\<lparr>local_file := Some (content resp)\<rparr>) \<noteq> Inl FileNotFoundError"
        by (rule read_csv_not_missing) simp
      with r s show ?thesis by (simp add: load_data_remote)
    next
      assume "\<exists>n. save e = Write_fails n"
      then obtain n where s: "save e = Write_fails n" ..
      have "read_csv parse (e\<lparr>local_file := Some (take n (content resp))\<rparr>) \<noteq> Inl FileNotFoundError"
        by (rule read_csv_not_missing) simp
      with r s show ?thesis by (simp add: load_data_cut)
    qed
    with False show ?thesis by blast
  qed
qed

theorem load_data_result_witness:
  "fst (load_data example_parse
      \<lparr>remote = Some \<lparr>status_code = 200, content = ''fresh''\<rparr>, local_file = Some ''stale'',
       save = Saved\<rparr>)
     = Inr two_countries \<and>
   fst (load_data example_parse
      \<lparr>remote = Some \<lparr>status_code = 503, content = ''busy''\<rparr>, local_file = Some ''stale'',
       save = Saved\<rparr>)
     = Inr two_countries_clean \<and>
   fst (load_data example_parse \<lparr>remote = None, local_file = None, save = Saved\<rparr>)
     = Inl FileNotFoundError"
proof -
  let ?e1 = "\<lparr>remote = Some \<lparr>status_code = 200, content = ''fresh''\<rparr>, local_file = Some ''stale'',
       save = Saved\<rparr>"
  let ?e2 = "\<lparr>remote = Some \<lparr>status_code = 503, content = ''busy''\<rparr>, local_file = Some ''stale'',
       save = Saved\<rparr>"
  let ?e3 = "\<lparr>remote = None, local_file = None, save = Saved\<rparr>"
  have 1: "remote ?e1 = Some \<lparr>status_code = 200, content = ''fresh''\<rparr> \<and>
      raise_for_status \<lparr>status_code = 200, content = ''fresh''\<rparr> = None \<and> save ?e1 = Saved"
    by (simp add: raise_for_status_def)
  have 2: "(\<not> download_succeeds ?e2 \<or> save ?e2 = Open_fails) \<and> local_file ?e2 = Some ''stale''"
    by (simp add: download_succeeds_def raise_for_status_def)
  have 3: "(\<not> download_succeeds ?e3 \<or> save ?e3 = Open_fails) \<and> local_file ?e3 = None"
    by (simp add: download_succeeds_def)
  from load_data_result [of ?e1 example_parse] 1
  have "fst (load_data example_parse ?e1) = Inr two_countries"
    by (simp add: example_parse_def)
  moreover from load_data_result [of ?e2 example_parse] 2
  have "fst (load_data example_parse ?e2) = Inr two_countries_clean"
    by (simp add: example_parse_def)
  moreover from load_data_result [of ?e3 example_parse] 3
  have "fst (load_data example_parse ?e3) = Inl FileNotFoundError"
    by blast
  ultimately show ?thesis by blast
qed

text \<open>
  Against claim C3 as it is worded: the download succeeds and what comes back is no
  table but the error of the parser, the file read being the one just written, although
  the file of before the download could be read; and the download succeeds, the file
  cannot be opened for writing, there is no local file, and FileNotFoundError is raised.
\<close>

theorem load_data_of_a_download_that_is_no_table:
  "download_succeeds
     \<lparr>remote = Some \<lparr>status_code = 200, content = ''busy''\<rparr>, local_file = Some ''stale'',
      save = Saved\<rparr> \<and>
   fst (load_data example_parse
      \<lparr>remote = Some \<lparr>status_code = 200, content = ''busy''\<rparr>, local_file = Some ''stale'',
       save = Saved\<rparr>)
     = Inl ParserError \<and>
   download_succeeds
     \<lparr>remote = Some \<lparr>status_code = 200, content = ''fresh''\<rparr>, local_file = None,
      save = Open_fails\<rparr> \<and>
   fst (load_data example_parse
      \<lparr>remote = Some \<lparr>status_code = 200, content = ''fresh''\<rparr>, local_file = None,
       save = Open_fails\<rparr>)
     = Inl FileNotFoundError"
  by code_simp

text \<open>
  Claim C8, as amended. When the download succeeds and the file is written, the local
  file holds the downloaded content after \<open>load_data\<close>, whatever it held before, and the
  table returned is read back from that file. When the file cannot be opened for
  writing, it is left as it was and is the file read, when it exists. When writing
  breaks off, the file holds the part written, and that is what is read.
\<close>

theorem load_data_overwrites_local_file:
  assumes "remote e = Some resp" and "raise_for_status resp = None"
  shows "remote (fst (snd (load_data parse e))) = remote e \<and>
     (save e = Saved \<longrightarrow>
        local_file (fst (snd (load_data parse e))) = Some (content resp) \<and>
        fst (load_data parse e) = read_csv parse (e\<lparr>local_file := Some (content resp)\<rparr>) \<and>
        Print ''Saved remote CSV to owid-covid-data.csv'' \<in> set (snd (snd (load_data parse e)))) \<and>
     (save e = Open_fails \<longrightarrow>
        fst (snd (load_data parse e)) = e \<and>
        fst (load_data parse e) =
          (if local_file e = None then Inl FileNotFoundError else read_csv parse e) \<and>
        Print ''Saved remote CSV to owid-covid-data.csv'' \<notin> set (snd (snd (load_data parse e)))) \<and>
     (\<forall>n. save e = Write_fails n \<longrightarrow>
        local_file (fst (snd (load_data parse e))) = Some (take n (content resp)) \<and>
        fst (load_data parse e) = read_csv parse (e\<lparr>local_file := Some (take n (content resp))\<rparr>) \<and>
        Print ''Saved remote CSV to owid-covid-data.csv'' \<notin> set (snd (snd (load_data parse e))))"
proof (intro conjI allI impI)
  show "remote (fst (snd (load_data parse e))) = remote e"
    using assms by (cases "save e") (simp_all add: load_data_def try_remote_def Let_def split: sum.splits)
next
  assume s: "save e = Saved"
  from assms s show "local_file (fst (snd (load_data parse e))) = Some (content resp)"
    by (simp add: load_data_remote)
  from assms s show "fst (load_data parse e) = read_csv parse (e\<lparr>local_file := Some (content resp)\<rparr>)"
    by (simp add: load_data_remote)
  from assms s show
    "Print ''Saved remote CSV to owid-covid-data.csv'' \<in> set (snd (snd (load_data parse e)))"
    by (simp add: load_data_remote)
next
  assume s: "save e = Open_fails"
  then obtain err where l: "load_data parse e =
     ((if local_file e = None then Inl FileNotFoundError else read_csv parse e), e,
      [Print ''Downloading data from OWID...'', Print_remote_failed err])"
    using load_data_fallback by blast
  from l show "fst (snd (load_data parse e)) = e" by simp
  from l show "fst (load_data parse e) =
          (if local_file e = None then Inl FileNotFoundError else read_csv parse e)"
    by simp
  from l show
    "Print ''Saved remote CSV to owid-covid-data.csv'' \<notin> set (snd (snd (load_data parse e)))"
    by simp
next
  fix n assume s: "save e = Write_fails n"
  from assms s show "local_file (fst (snd (load_data parse e))) = Some (take n (content resp))"
    by (simp add: load_data_cut)
  from assms s show
    "fst (load_data parse e) = read_csv parse (e\<lparr>local_file := Some (take n (content resp))\<rparr>)"
    by (simp add: load_data_cut)
  from assms s show
    "Print ''Saved remote CSV to owid-covid-data.csv'' \<notin> set (snd (snd (load_data parse e)))"
    by (simp add: load_data_cut)
qed

theorem load_data_overwrites_local_file_witness:
  "local_file (fst (snd (load_data example_parse
      \<lparr>remote = Some \<lparr>status_code = 200, content = ''fresh''\<rparr>, local_file = Some ''stale'',
       save = Saved\<rparr>)))
     = Some ''fresh'' \<and>
   fst (load_data example_parse
      \<lparr>remote = Some \<lparr>status_code = 200, content = ''fresh''\<rparr>, local_file = Some ''stale'',
       save = Saved\<rparr>)
     = Inr two_countries \<and>
   local_file (fst (snd (load_data example_parse
      \<lparr>remote = Some \<lparr>status_code = 200, content = ''fresh''\<rparr>, local_file = Some ''stale'',
       save = Write_fails 3\<rparr>)))
     = Some ''fre''"
proof -
  let ?r = "\<lparr>status_code = 200, content = ''fresh''\<rparr>"
  let ?e = "\<lparr>remote = Some ?r, local_file = Some ''stale'', save = Saved\<rparr>"
  let ?c = "\<lparr>remote = Some ?r, local_file = Some ''stale'', save = Write_fails 3\<rparr>"
  have 1: "remote ?e = Some ?r" "remote ?c = Some ?r" by simp_all
  have 2: "raise_for_status ?r = None" by (simp add: raise_for_status_def)
  from load_data_overwrites_local_file [OF 1(1) 2, of example_parse]
  have "local_file (fst (snd (load_data example_parse ?e))) = Some ''fresh''"
    and "fst (load_data example_parse ?e) = Inr two_countries"
    by (simp_all add: read_csv_def example_parse_def)
  moreover from load_data_overwrites_local_file [OF 1(2) 2, of example_parse]
  have "local_file (fst (snd (load_data example_parse ?c))) = Some ''fre''"
    by simp
  ultimately show ?thesis by blast
qed

text \<open>
  Against claim C8 as it is worded: the download succeeds, the file cannot be opened
  for writing, and the copy of before is kept and read.
\<close>

theorem load_data_keeps_local_file:
  "download_succeeds
     \<lparr>remote = Some \<lparr>status_code = 200, content = ''fresh''\<rparr>, local_file = Some ''stale'',
      save = Open_fails\<rparr> \<and>
   load_data example_parse
     \<lparr>remote = Some \<lparr>status_code = 200, content = ''fresh''\<rparr>, local_file = Some ''stale'',
      save = Open_fails\<rparr>
     = (Inr two_countries_clean,
        \<lparr>remote = Some \<lparr>status_code = 200, content = ''fresh''\<rparr>, local_file = Some ''stale'',
         save = Open_fails\<rparr>,
        [Print ''Downloading data from OWID...'', Print_remote_failed OSError])"
  by code_simp

section \<open>The summary\<close>


lemma total_cases_key_le:
  "na_last (map_option uminus a) \<le> na_last (map_option uminus b) \<longleftrightarrow> total_cases_ge a (b :: rat option)"
  by (cases a; cases b) (auto simp: na_last_def total_cases_ge_def less_eq_prod_def)

lemma sorted_total_cases_desc:
  "sorted_wrt (\<lambda>a b. total_cases_ge (total_cases (fst a)) (total_cases (fst b)))
     (sort_values_total_cases_desc xs)"
proof -
  have "sorted (map (\<lambda>x. na_last (map_option uminus (total_cases (fst x))))
      (sort_values_total_cases_desc xs))"
    by (simp add: sort_values_total_cases_desc_def)
  then show ?thesis
    by (simp add: sorted_map total_cases_key_le)
qed

lemma mset_sort_values_total_cases_desc: "mset (sort_values_total_cases_desc xs) = mset xs"
  by (simp add: sort_values_total_cases_desc_def)

lemma with_death_rate_member:
  "x \<in> set (with_death_rate lt) \<longleftrightarrow>
     fst x \<in> set lt \<and> snd x = float_div (total_deaths (fst x)) (total_cases (fst x))"
  by (cases x) (auto simp: with_death_rate_def)

lemma top5_structure:
  "length (top5 lt) = min 5 (length lt) \<and>
   sorted_wrt (\<lambda>a b. total_cases_ge (total_cases (fst a)) (total_cases (fst b))) (top5 lt) \<and>
   (\<exists>rest. mset (top5 lt @ rest) = mset (with_death_rate lt) \<and>
      (\<forall>a\<in>set (top5 lt). \<forall>b\<in>set rest.
         total_cases_ge (total_cases (fst a)) (total_cases (fst b)))) \<and>
   (\<forall>x\<in>set (top5 lt).
      fst x \<in> set lt \<and> snd x = float_div (total_deaths (fst x)) (total_cases (fst x)))"
proof -
  let ?R = "\<lambda>a b. total_cases_ge (total_cases (fst a)) (total_cases (fst b))"
  let ?s = "sort_values_total_cases_desc (with_death_rate lt)"
  have len: "length ?s = length lt"
    using mset_sort_values_total_cases_desc [of "with_death_rate lt"]
    by (metis length_map size_mset with_death_rate_def)
  have srt: "sorted_wrt ?R ?s" by (rule sorted_total_cases_desc)
  have split: "take 5 ?s @ drop 5 ?s = ?s" by simp
  have 1: "length (top5 lt) = min 5 (length lt)"
    by (simp add: top5_def len min.commute)
  have 2: "sorted_wrt ?R (top5 lt)"
    unfolding top5_def by (rule sorted_wrt_take) (rule srt)
  from srt have "sorted_wrt ?R (take 5 ?s @ drop 5 ?s)" by simp
  then have dom: "\<forall>a\<in>set (take 5 ?s). \<forall>b\<in>set (drop 5 ?s). ?R a b"
    using sorted_wrt_append [of ?R "take 5 ?s" "drop 5 ?s"] by blast
  have "mset (top5 lt @ drop 5 ?s) = mset (with_death_rate lt)"
    unfolding top5_def by (simp only: split mset_sort_values_total_cases_desc)
  with dom have 3: "\<exists>rest. mset (top5 lt @ rest) = mset (with_death_rate lt) \<and>
      (\<forall>a\<in>set (top5 lt). \<forall>b\<in>set rest. ?R a b)"
    unfolding top5_def by blast
  have 4: "\<forall>x\<in>set (top5 lt).
      fst x \<in> set lt \<and> snd x = float_div (total_deaths (fst x)) (total_cases (fst x))"
  proof
    fix x assume "x \<in> set (top5 lt)"
    then have "x \<in> set ?s" unfolding top5_def by (rule in_set_takeD)
    then have "x \<in># mset ?s" by simp
    then have "x \<in> set (with_death_rate lt)"
      by (simp only: mset_sort_values_total_cases_desc set_mset_mset)
    then show "fst x \<in> set lt \<and> snd x = float_div (total_deaths (fst x)) (total_cases (fst x))"
      by (simp add: with_death_rate_member)
  qed
  from 1 2 3 4 show ?thesis by blast
qed

lemma first_missing_None: "first_missing cs d = None \<longleftrightarrow> set cs \<subseteq> set (columns d)"
proof -
  have "filter (\<lambda>c. c \<notin> set (columns d)) cs = [] \<longleftrightarrow> set cs \<subseteq> set (columns d)"
    by (auto simp: filter_empty_conv)
  then show ?thesis
    by (cases "filter (\<lambda>c. c \<notin> set (columns d)) cs") (simp_all add: first_missing_def)
qed

text \<open>
  Claim C5, as amended. When the table of the latest rows has the columns
  \<open>total_deaths\<close> and \<open>total_cases\<close>, the script prints the heading and the table
  \<open>top5\<close>: the first five rows, or all of them when there are fewer, of the latest rows
  in descending order of \<open>total_cases\<close> with the rows without \<open>total_cases\<close> last; no row
  left out has more total cases than a row printed; and the death rate of every row
  printed is its \<open>total_deaths\<close> divided by its \<open>total_cases\<close>.
\<close>

theorem insights_prints_top5:
  assumes "''total_deaths'' \<in> set (columns t)" and "''total_cases'' \<in> set (columns t)"
  shows "fst (insights t k) =
       [Print ''Top 5 countries by total cases and death rates:'',
        Print_table (map (\<lambda>(r, q). (location r, total_cases r, total_deaths r, q)) (top5 (rows t)))]
       @ fst k \<and>
     length (top5 (rows t)) = min 5 (length (rows t)) \<and>
     sorted_wrt (\<lambda>a b. total_cases_ge (total_cases (fst a)) (total_cases (fst b))) (top5 (rows t)) \<and>
     (\<exists>rest. mset (top5 (rows t) @ rest) = mset (with_death_rate (rows t)) \<and>
        (\<forall>a\<in>set (top5 (rows t)). \<forall>b\<in>set rest.
           total_cases_ge (total_cases (fst a)) (total_cases (fst b)))) \<and>
     (\<forall>x\<in>set (top5 (rows t)).
        fst x \<in> set (rows t) \<and> snd x = float_div (total_deaths (fst x)) (total_cases (fst x)))"
proof -
  from assms have "first_missing [''total_deaths'', ''total_cases''] t = None"
    by (simp add: first_missing_None)
  then have "fst (insights t k) =
       [Print ''Top 5 countries by total cases and death rates:'',
        Print_table (map (\<lambda>(r, q). (location r, total_cases r, total_deaths r, q)) (top5 (rows t)))]
       @ fst k"
    by (simp add: insights_def prepend_def)
  with top5_structure [of "rows t"] show ?thesis by blast
qed

theorem insights_prints_top5_witness:
  "length (top5 (rows two_countries_latest)) = 2 \<and>
   sorted_wrt (\<lambda>a b. total_cases_ge (total_cases (fst a)) (total_cases (fst b)))
     (top5 (rows two_countries_latest))"
proof -
  have c: "''total_deaths'' \<in> set (columns two_countries_latest)"
    "''total_cases'' \<in> set (columns two_countries_latest)"
    by (simp_all add: two_countries_latest_def)
  have l: "min 5 (length (rows two_countries_latest)) = 2"
    by (simp add: two_countries_latest_def)
  from insights_prints_top5 [OF c, of "([], None)"] l show ?thesis by simp
qed

text \<open>
  Against claim C5 as it is worded (five rows): a data set with two locations has two
  latest rows, and the summary printed has two rows.
\<close>

theorem summary_of_two_rows:
  "latest two_countries_clean = Inr two_countries_latest \<and>
   fst (insights two_countries_latest ([], None)) =
     [Print ''Top 5 countries by total cases and death rates:'',
      Print_table [(Some ''India'', Some 7, Some 2, Finite (2573485501354569 / 9007199254740992)),
                   (Some ''Brazil'', Some 5, None, NaN)]]"
  by code_simp

lemma round_float64_not_NaN: "round_float64 q \<noteq> NaN"
  by (simp add: round_float64_def Let_def)

lemma float_div_NaN:
  "float_div a b = NaN \<longleftrightarrow> a = None \<or> b = None \<or> (a = Some 0 \<and> b = Some 0)"
  by (cases a; cases b) (auto simp: float_div_def round_float64_not_NaN)

lemma float_div_zero: "float_div a (Some 0) \<noteq> Finite v"
  by (cases a) (simp_all add: float_div_def)

lemma float_div_missing: "float_div a None \<noteq> Finite v"
  by (cases a) (simp_all add: float_div_def)

lemma insights_goes_on:
  assumes "''total_deaths'' \<in> set (columns t)" and "''total_cases'' \<in> set (columns t)"
  shows "snd (insights t k) = snd k"
proof -
  from assms have "first_missing [''total_deaths'', ''total_cases''] t = None"
    by (simp add: first_missing_None)
  then show ?thesis by (simp add: insights_def prepend_def)
qed

text \<open>
  Claim C10, as amended. The death rate is computed for every row, with no test of the
  divisor, and nothing is raised: a row without total cases, or with none, has no finite
  death rate. When the total cases of every latest row are strictly positive, a death
  rate is NaN exactly where the total deaths are missing. When moreover no total deaths
  are missing, every death rate is the quotient of the total deaths by the total cases
  rounded to a float64: a number, or an infinity when the quotient is too large for a
  float64, and never NaN.
\<close>

theorem death_rate_division:
  "map fst (with_death_rate lt) = lt \<and>
   (\<forall>x\<in>set (with_death_rate lt).
      snd x = float_div (total_deaths (fst x)) (total_cases (fst x)) \<and>
      (total_cases (fst x) = None \<or> total_cases (fst x) = Some 0 \<longrightarrow> (\<forall>v. snd x \<noteq> Finite v))) \<and>
   (''total_deaths'' \<in> set (columns t) \<and> ''total_cases'' \<in> set (columns t) \<longrightarrow>
      snd (insights t k) = snd k) \<and>
   ((\<forall>r\<in>set lt. \<exists>c. total_cases r = Some c \<and> 0 < c) \<longrightarrow>
      (\<forall>x\<in>set (with_death_rate lt). snd x = NaN \<longleftrightarrow> total_deaths (fst x) = None)) \<and>
   ((\<forall>r\<in>set lt. \<exists>c d. total_cases r = Some c \<and> 0 < c \<and> total_deaths r = Some d) \<longrightarrow>
      (\<forall>x\<in>set (with_death_rate lt). \<exists>c d.
         total_cases (fst x) = Some c \<and> 0 < c \<and> total_deaths (fst x) = Some d \<and>
         snd x = round_float64 (d / c) \<and> snd x \<noteq> NaN))"
proof (intro conjI ballI impI)
  show "map fst (with_death_rate lt) = lt"
    by (simp add: with_death_rate_def o_def)
next
  fix x assume "x \<in> set (with_death_rate lt)"
  then show "snd x = float_div (total_deaths (fst x)) (total_cases (fst x))"
    by (simp add: with_death_rate_member)
next
  fix x assume x: "x \<in> set (with_death_rate lt)"
    and z: "total_cases (fst x) = None \<or> total_cases (fst x) = Some 0"
  from x have "snd x = float_div (total_deaths (fst x)) (total_cases (fst x))"
    by (simp add: with_death_rate_member)
  with z show "\<forall>v. snd x \<noteq> Finite v"
    by (auto simp: float_div_zero float_div_missing)
next
  assume "''total_deaths'' \<in> set (columns t) \<and> ''total_cases'' \<in> set (columns t)"
  then show "snd (insights t k) = snd k" by (simp add: insights_goes_on)
next
  fix x
  assume pos: "\<forall>r\<in>set lt. \<exists>c. total_cases r = Some c \<and> 0 < c"
    and x: "x \<in> set (with_death_rate lt)"
  from x have m: "fst x \<in> set lt" "snd x = float_div (total_deaths (fst x)) (total_cases (fst x))"
    by (simp_all add: with_death_rate_member)
  with pos obtain c where c: "total_cases (fst x) = Some c" "0 < c" by blast
  then show "snd x = NaN \<longleftrightarrow> total_deaths (fst x) = None"
    by (simp add: m(2) float_div_NaN)
next
  fix x
  assume pos: "\<forall>r\<in>set lt. \<exists>c d. total_cases r = Some c \<and> 0 < c \<and> total_deaths r = Some d"
    and x: "x \<in> set (with_death_rate lt)"
  from x have m: "fst x \<in> set lt" "snd x = float_div (total_deaths (fst x)) (total_cases (fst x))"
    by (simp_all add: with_death_rate_member)
  with pos obtain c d where c: "total_cases (fst x) = Some c" "0 < c" "total_deaths (fst x) = Some d"
    by blast
  then have "snd x = round_float64 (d / c)"
    by (simp add: m(2) float_div_def)
  with c show "\<exists>c d. total_cases (fst x) = Some c \<and> 0 < c \<and> total_deaths (fst x) = Some d \<and>
         snd x = round_float64 (d / c) \<and> snd x \<noteq> NaN"
    by (simp add: round_float64_not_NaN)
qed

theorem death_rate_division_witness:
  "with_death_rate [obs ''IND'' ''India'' 18630 (Some 7) (Some 2)] =
     [(obs ''IND'' ''India'' 18630 (Some 7) (Some 2),
       Finite (2573485501354569 / 9007199254740992))] \<and>
   (\<exists>c d. total_cases (obs ''IND'' ''India'' 18630 (Some 7) (Some 2)) = Some c \<and> 0 < c \<and>
      total_deaths (obs ''IND'' ''India'' 18630 (Some 7) (Some 2)) = Some d \<and>
      Finite (2573485501354569 / 9007199254740992) = round_float64 (d / c))"
proof -
  let ?r = "obs ''IND'' ''India'' 18630 (Some 7) (Some 2)"
  let ?q = "Finite (2573485501354569 / 9007199254740992)"
  have pre: "\<forall>r\<in>set [?r]. \<exists>c d. total_cases r = Some c \<and> 0 < c \<and> total_deaths r = Some d"
    by (simp add: obs_def)
  have w: "with_death_rate [?r] = [(?r, ?q)]"
    by code_simp
  then have mem: "(?r, ?q) \<in> set (with_death_rate [?r])" by simp
  from death_rate_division [of "[?r]"] pre mem
  have "\<exists>c d. total_cases (fst (?r, ?q)) = Some c \<and> 0 < c \<and> total_deaths (fst (?r, ?q)) = Some d \<and>
       snd (?r, ?q) = round_float64 (d / c) \<and> snd (?r, ?q) \<noteq> NaN"
    by blast
  then have "\<exists>c d. total_cases ?r = Some c \<and> 0 < c \<and> total_deaths ?r = Some d \<and>
       ?q = round_float64 (d / c)"
    by simp
  with w show ?thesis by blast
qed

text \<open>
  Against claim C10 as it is worded: the total cases of every latest row are strictly
  positive, and the death rate of Brazil, which has no total deaths, is NaN.
\<close>

theorem death_rate_of_missing_deaths:
  "latest two_countries_clean = Inr two_countries_latest \<and>
   map total_cases (rows two_countries_latest) = [Some 5, Some 7] \<and>
   with_death_rate (rows two_countries_latest) =
     [(obs ''BRA'' ''Brazil'' 18630 (Some 5) None, NaN),
      (obs ''IND'' ''India'' 18630 (Some 7) (Some 2),
       Finite (2573485501354569 / 9007199254740992))]"
  by code_simp

section \<open>The merge for the map\<close>

lemma merge_left_Nil [simp]: "merge_left [] lt = []"
  by (simp add: merge_left_def)

lemma merge_left_Cons:
  "merge_left (w # ws) lt =
     (if matches lt w = [] then [(w, null_row)] else map (\<lambda>r. (w, r)) (matches lt w))
     @ merge_left ws lt"
  by (cases "matches lt w") (simp_all add: merge_left_def)

lemma map_fst_merge_left:
  "map fst (merge_left world lt) =
     concat (map (\<lambda>w. replicate (max 1 (length (matches lt w))) w) world)"
proof (induction world)
  case Nil
  show ?case by simp
next
  case (Cons w ws)
  have "map fst (map (\<lambda>r. (w, r)) (matches lt w)) = replicate (length (matches lt w)) w"
    by (simp add: map_replicate_const o_def)
  moreover have "matches lt w \<noteq> [] \<Longrightarrow> max 1 (length (matches lt w)) = length (matches lt w)"
    by (cases "matches lt w") simp_all
  ultimately show ?case using Cons.IH by (simp add: merge_left_Cons)
qed

lemma set_merge_left:
  "set (merge_left world lt) =
     {(w, r). w \<in> set world \<and>
        (r \<in> set lt \<and> iso_code r = iso_a3 w \<or> r = null_row \<and> matches lt w = [])}"
proof (induction world)
  case Nil
  show ?case by simp
next
  case (Cons w ws)
  have m: "set (matches lt w) = {r \<in> set lt. iso_code r = iso_a3 w}"
    by (simp add: matches_def)
  have e: "matches lt w = [] \<longleftrightarrow> (\<forall>r\<in>set lt. iso_code r \<noteq> iso_a3 w)"
    by (simp add: matches_def filter_empty_conv)
  show ?case
  proof (cases "matches lt w = []")
    case True
    with e have n: "\<forall>r\<in>set lt. iso_code r \<noteq> iso_a3 w" by simp
    have "set (merge_left (w # ws) lt) = insert (w, null_row) (set (merge_left ws lt))"
      using True by (simp add: merge_left_Cons)
    also have "\<dots> = {(w', r). w' \<in> set (w # ws) \<and>
        (r \<in> set lt \<and> iso_code r = iso_a3 w' \<or> r = null_row \<and> matches lt w' = [])}"
      using True n unfolding Cons.IH by auto
    finally show ?thesis .
  next
    case False
    have "set (merge_left (w # ws) lt) = (\<lambda>r. (w, r)) ` set (matches lt w) \<union> set (merge_left ws lt)"
      using False by (simp add: merge_left_Cons)
    also have "\<dots> = {(w', r). w' \<in> set (w # ws) \<and>
        (r \<in> set lt \<and> iso_code r = iso_a3 w' \<or> r = null_row \<and> matches lt w' = [])}"
      using False unfolding Cons.IH m by auto
    finally show ?thesis .
  qed
qed

lemma find_filter_hd:
  "find P xs = (case filter P xs of [] \<Rightarrow> None | x # _ \<Rightarrow> Some x)"
  by (induction xs) simp_all

lemma merge_left_once:
  assumes "\<forall>w\<in>set world. length (filter (\<lambda>r. iso_code r = iso_a3 w) lt) \<le> 1"
  shows "merge_left world lt =
     map (\<lambda>w. (w, case find (\<lambda>r. iso_code r = iso_a3 w) lt of None \<Rightarrow> null_row | Some r \<Rightarrow> r))
       world"
  using assms
proof (induction world)
  case Nil
  show ?case by simp
next
  case (Cons w ws)
  let ?ms = "filter (\<lambda>r. iso_code r = iso_a3 w) lt"
  from Cons.prems have l: "length ?ms \<le> 1" by simp
  have "(if matches lt w = [] then [(w, null_row)] else map (\<lambda>r. (w, r)) (matches lt w)) =
      [(w, case find (\<lambda>r. iso_code r = iso_a3 w) lt of None \<Rightarrow> null_row | Some r \<Rightarrow> r)]"
  proof (cases ?ms)
    case Nil
    then show ?thesis by (simp add: matches_def find_filter_hd)
  next
    case (Cons r rs)
    with l have "rs = []" by simp
    with Cons show ?thesis by (simp add: matches_def find_filter_hd)
  qed
  with Cons show ?case by (simp add: merge_left_Cons)
qed

text \<open>
  Claim C6, as amended. The merged table has the regions of the world table in their
  order, each once for every latest row whose \<open>iso_code\<close> is its \<open>iso_a3\<close>, and once
  when there is no such row; its entries are the pairs of a region with such a row, and
  of a region without one with a row of missing values. When at most one latest row has
  the key of a region, the merged table is the world table, every region with that row,
  or with the row of missing values. The map is shaded by the \<open>total_cases\<close> of the
  merged rows.
\<close>

theorem merge_left_keeps_regions:
  "map fst (merge_left world lt) =
     concat (map (\<lambda>w. replicate (max 1 (length (filter (\<lambda>r. iso_code r = iso_a3 w) lt))) w)
       world) \<and>
   set (merge_left world lt) =
     {(w, r). w \<in> set world \<and>
        (r \<in> set lt \<and> iso_code r = iso_a3 w \<or>
         r = null_row \<and> (\<forall>r'\<in>set lt. iso_code r' \<noteq> iso_a3 w))} \<and>
   ((\<forall>w\<in>set world. length (filter (\<lambda>r. iso_code r = iso_a3 w) lt) \<le> 1) \<longrightarrow>
      merge_left world lt =
        map (\<lambda>w. (w, case find (\<lambda>r. iso_code r = iso_a3 w) lt of
                        None \<Rightarrow> null_row | Some r \<Rightarrow> r)) world) \<and>
   (''total_cases'' \<in> set (columns t) \<longrightarrow>
      choropleth world t =
        Inr (Choropleth_chart ''Global COVID-19 Total Cases''
          (map (\<lambda>(w, r). (w, total_cases r)) (merge_left world (rows t)))))"
proof (intro conjI impI)
  show "map fst (merge_left world lt) =
     concat (map (\<lambda>w. replicate (max 1 (length (filter (\<lambda>r. iso_code r = iso_a3 w) lt))) w)
       world)"
    using map_fst_merge_left [of world lt] by (simp add: matches_def)
  have e: "matches lt w = [] \<longleftrightarrow> (\<forall>r'\<in>set lt. iso_code r' \<noteq> iso_a3 w)" for w
    by (simp add: matches_def filter_empty_conv)
  show "set (merge_left world lt) =
     {(w, r). w \<in> set world \<and>
        (r \<in> set lt \<and> iso_code r = iso_a3 w \<or>
         r = null_row \<and> (\<forall>r'\<in>set lt. iso_code r' \<noteq> iso_a3 w))}"
    unfolding set_merge_left e ..
  show "merge_left world lt =
        map (\<lambda>w. (w, case find (\<lambda>r. iso_code r = iso_a3 w) lt of
                        None \<Rightarrow> null_row | Some r \<Rightarrow> r)) world"
    if "\<forall>w\<in>set world. length (filter (\<lambda>r. iso_code r = iso_a3 w) lt) \<le> 1"
    using that by (rule merge_left_once)
  show "choropleth world t =
        Inr (Choropleth_chart ''Global COVID-19 Total Cases''
          (map (\<lambda>(w, r). (w, total_cases r)) (merge_left world (rows t))))"
    if "''total_cases'' \<in> set (columns t)"
  proof -
    from that have "first_missing [''total_cases''] t = None"
      by (simp add: first_missing_None)
    then show ?thesis by (simp add: choropleth_def)
  qed
qed

theorem merge_left_keeps_regions_witness:
  "merge_left [fiji, brazil] (rows two_countries_latest) =
     [(fiji, null_row), (brazil, obs ''BRA'' ''Brazil'' 18630 (Some 5) None)] \<and>
   choropleth [fiji, brazil] two_countries_latest =
     Inr (Choropleth_chart ''Global COVID-19 Total Cases'' [(fiji, None), (brazil, Some 5)])"
proof -
  let ?lt = "rows two_countries_latest"
  have o: "\<forall>w\<in>set [fiji, brazil]. length (filter (\<lambda>r. iso_code r = iso_a3 w) ?lt) \<le> 1"
    by (simp add: two_countries_latest_def obs_def brazil_def fiji_def)
  have c: "''total_cases'' \<in> set (columns two_countries_latest)"
    by (simp add: two_countries_latest_def)
  from merge_left_keeps_regions [of "[fiji, brazil]" ?lt two_countries_latest] o c
  have m: "merge_left [fiji, brazil] ?lt =
        map (\<lambda>w. (w, case find (\<lambda>r. iso_code r = iso_a3 w) ?lt of
                        None \<Rightarrow> null_row | Some r \<Rightarrow> r)) [fiji, brazil]"
    and p: "choropleth [fiji, brazil] two_countries_latest =
        Inr (Choropleth_chart ''Global COVID-19 Total Cases''
          (map (\<lambda>(w, r). (w, total_cases r)) (merge_left [fiji, brazil] ?lt)))"
    by blast+
  have f: "map (\<lambda>w. (w, case find (\<lambda>r. iso_code r = iso_a3 w) ?lt of
                        None \<Rightarrow> null_row | Some r \<Rightarrow> r)) [fiji, brazil] =
      [(fiji, null_row), (brazil, obs ''BRA'' ''Brazil'' 18630 (Some 5) None)]"
    by (simp add: two_countries_latest_def obs_def brazil_def fiji_def)
  from m f have 1: "merge_left [fiji, brazil] ?lt =
     [(fiji, null_row), (brazil, obs ''BRA'' ''Brazil'' 18630 (Some 5) None)]"
    by simp
  have "map (\<lambda>(w, r). (w, total_cases r))
      [(fiji, null_row), (brazil, obs ''BRA'' ''Brazil'' 18630 (Some 5) None)] =
      [(fiji, None), (brazil, Some 5)]"
    by (simp add: null_row_def obs_def)
  with p 1 have "choropleth [fiji, brazil] two_countries_latest =
     Inr (Choropleth_chart ''Global COVID-19 Total Cases'' [(fiji, None), (brazil, Some 5)])"
    by simp
  with 1 show ?thesis by blast
qed

text \<open>
  Against claim C6 as it is worded (every region exactly once): when the last day of a
  location is recorded twice, cleaning keeps both rows, both are its latest rows, and
  its region is on the map twice.
\<close>

theorem region_of_a_repeated_day:
  "clean repeated_day = Inr repeated_day \<and>
   latest repeated_day = Inr repeated_day \<and>
   choropleth [usa, fiji] repeated_day =
     Inr (Choropleth_chart ''Global COVID-19 Total Cases''
       [(usa, Some 3), (usa, Some 4), (fiji, None)])"
  by code_simp

section \<open>The charts and the menu\<close>

lemma groupby_Inr:
  "''location'' \<in> set (columns d) \<Longrightarrow> groupby d = Inr (groupby_location (rows d))"
  by (simp add: groupby_def)

lemma plot_time_series_Inr:
  assumes "''location'' \<in> set (columns d)" and "''date'' \<in> set (columns d)"
    and "metric_name m \<in> set (columns d)"
  shows "plot_time_series d m ttl =
     Inr (Line_chart ttl
       (map (\<lambda>(loc, grp). plot_line (metric_val m) False loc grp) (groupby_location (rows d))))"
proof -
  from assms have "first_missing [''date'', metric_name m] d = None"
    by (simp add: first_missing_None)
  with assms(1) show ?thesis
    by (simp add: plot_time_series_def groupby_Inr)
qed

lemma plot_dual_axis_Inr:
  assumes "''location'' \<in> set (columns d)" and "''date'' \<in> set (columns d)"
    and "metric_name m1 \<in> set (columns d)" and "metric_name m2 \<in> set (columns d)"
  shows "plot_dual_axis d m1 m2 name1 name2 =
     Inr (Dual_axis_chart (name1 @ '' & '' @ name2)
       (map (\<lambda>(loc, grp). plot_line (metric_val m1) False (loc @ '' '' @ name1) grp)
          (groupby_location (rows d)))
       (map (\<lambda>(loc, grp). plot_line (metric_val m2) True (loc @ '' '' @ name2) grp)
          (groupby_location (rows d))))"
proof -
  from assms have "first_missing [''date'', metric_name m1, metric_name m2] d = None"
    by (simp add: first_missing_None)
  with assms(1) show ?thesis
    by (simp add: plot_dual_axis_def groupby_Inr)
qed

lemma plot_death_vs_infection_Inr:
  assumes "''location'' \<in> set (columns d)" and "''date'' \<in> set (columns d)"
    and "''new_cases'' \<in> set (columns d)" and "''new_deaths'' \<in> set (columns d)"
  shows "plot_death_vs_infection d =
     Inr (Line_chart ''New Cases vs New Deaths Over Time''
       (concat (map (\<lambda>(loc, grp).
          [plot_line new_cases False (loc @ '' New Cases'') grp,
           plot_line new_deaths True (loc @ '' New Deaths'') grp]) (groupby_location (rows d)))))"
proof -
  from assms have "first_missing [''date'', ''new_cases'', ''new_deaths''] d = None"
    by (simp add: first_missing_None)
  with assms(1) show ?thesis
    by (simp add: plot_death_vs_infection_def groupby_Inr)
qed

lemma prepend_prepend: "prepend a (prepend b k) = prepend (a @ b) k"
  by (simp add: prepend_def)

lemma fst_prepend [simp]: "fst (prepend out k) = out @ fst k"
  by (simp add: prepend_def)

lemma snd_prepend [simp]: "snd (prepend out k) = snd k"
  by (simp add: prepend_def)

lemma display_Inr: "display (Inr ch) k = prepend [Show ch] k"
  by (simp add: display_def)

lemma navigation_menu_exit:
  "navigation_menu d (''5'' # rest) = (menu_lines @ [Print ''Exiting navigation menu.''], None)"
  by (simp add: prepend_def)

lemma navigation_menu_invalid:
  assumes "c \<noteq> ''1''" and "c \<noteq> ''2''" and "c \<noteq> ''4''" and "c \<noteq> ''5''"
    and "c = ''3'' \<longrightarrow> ''total_vaccinations'' \<notin> set (columns d)"
  shows "navigation_menu d (c # rest) =
     prepend (menu_lines @ [Print ''Invalid choice. Please try again.'']) (navigation_menu d rest)"
  using assms by (auto simp: prepend_prepend)

lemma navigation_menu_round:
  assumes "set menu_columns \<subseteq> set (columns d)" and "c \<noteq> ''5''"
  shows "\<exists>ev. ev \<noteq> menu_prompt \<and>
     navigation_menu d (c # rest) = prepend (menu_lines @ [ev]) (navigation_menu d rest)"
proof -
  from assms(1) have cs: "''location'' \<in> set (columns d)" "''date'' \<in> set (columns d)"
    "''total_cases'' \<in> set (columns d)" "''total_deaths'' \<in> set (columns d)"
    "''new_cases'' \<in> set (columns d)" "''new_deaths'' \<in> set (columns d)"
    by (simp_all add: menu_columns_def)
  consider "c = ''1''" | "c = ''2''" | "c = ''3''" "''total_vaccinations'' \<in> set (columns d)"
    | "c = ''4''"
    | "c \<noteq> ''1''" "c \<noteq> ''2''" "c \<noteq> ''4''" "c = ''3'' \<longrightarrow> ''total_vaccinations'' \<notin> set (columns d)"
    by blast
  then show ?thesis
  proof cases
    case 1
    from cs have "\<exists>ch. plot_time_series d Total_cases ''Total Cases Over Time'' = Inr ch"
      by (simp add: plot_time_series_Inr)
    then obtain ch where "plot_time_series d Total_cases ''Total Cases Over Time'' = Inr ch" ..
    with 1 have "navigation_menu d (c # rest) = prepend (menu_lines @ [Show ch]) (navigation_menu d rest)"
      by (simp add: display_Inr prepend_prepend)
    moreover have "Show ch \<noteq> menu_prompt" by (simp add: menu_prompt_def)
    ultimately show ?thesis by blast
  next
    case 2
    from cs have "\<exists>ch. plot_time_series d Total_deaths ''Total Deaths Over Time'' = Inr ch"
      by (simp add: plot_time_series_Inr)
    then obtain ch where "plot_time_series d Total_deaths ''Total Deaths Over Time'' = Inr ch" ..
    with 2 have "navigation_menu d (c # rest) = prepend (menu_lines @ [Show ch]) (navigation_menu d rest)"
      by (simp add: display_Inr prepend_prepend)
    moreover have "Show ch \<noteq> menu_prompt" by (simp add: menu_prompt_def)
    ultimately show ?thesis by blast
  next
    case 3
    from cs 3(2) have "\<exists>ch. plot_dual_axis d New_cases Total_vaccinations
        ''Daily New Cases'' ''Total Vaccinations'' = Inr ch"
      by (simp add: plot_dual_axis_Inr)
    then obtain ch where "plot_dual_axis d New_cases Total_vaccinations
        ''Daily New Cases'' ''Total Vaccinations'' = Inr ch" ..
    with 3 have "navigation_menu d (c # rest) = prepend (menu_lines @ [Show ch]) (navigation_menu d rest)"
      by (simp add: display_Inr prepend_prepend)
    moreover have "Show ch \<noteq> menu_prompt" by (simp add: menu_prompt_def)
    ultimately show ?thesis by blast
  next
    case 4
    from cs have "\<exists>ch. plot_death_vs_infection d = Inr ch"
      by (simp add: plot_death_vs_infection_Inr)
    then obtain ch where "plot_death_vs_infection d = Inr ch" ..
    with 4 have "navigation_menu d (c # rest) = prepend (menu_lines @ [Show ch]) (navigation_menu d rest)"
      by (simp add: display_Inr prepend_prepend)
    moreover have "Show ch \<noteq> menu_prompt" by (simp add: menu_prompt_def)
    ultimately show ?thesis by blast
  next
    case 5
    have "navigation_menu d (c # rest) =
      prepend (menu_lines @ [Print ''Invalid choice. Please try again.'']) (navigation_menu d rest)"
      by (rule navigation_menu_invalid [OF 5(1) 5(2) 5(3) assms(2) 5(4)])
    moreover have "Print ''Invalid choice. Please try again.'' \<noteq> menu_prompt"
      by (simp add: menu_prompt_def)
    ultimately show ?thesis by blast
  qed
qed

lemma count_menu_lines: "count_list menu_lines menu_prompt = 1"
  by (simp add: menu_lines_def menu_prompt_def)

lemma navigation_menu_ends:
  assumes "set menu_columns \<subseteq> set (columns d)"
  shows "snd (navigation_menu d inputs) = (if ''5'' \<in> set inputs then None else Some EOFError)"
proof (induction inputs)
  case Nil
  show ?case by simp
next
  case (Cons c rest)
  show ?case
  proof (cases "c = ''5''")
    case True
    then show ?thesis by (simp add: navigation_menu_exit)
  next
    case False
    with navigation_menu_round [OF assms, of c rest] obtain ev where
      "navigation_menu d (c # rest) = prepend (menu_lines @ [ev]) (navigation_menu d rest)"
      by blast
    with False Cons.IH show ?thesis by auto
  qed
qed

lemma navigation_menu_prompts:
  assumes "set menu_columns \<subseteq> set (columns d)"
  shows "count_list (fst (navigation_menu d inputs)) menu_prompt =
     Suc (length (takeWhile (\<lambda>c. c \<noteq> ''5'') inputs))"
proof (induction inputs)
  case Nil
  show ?case by (simp add: count_menu_lines)
next
  case (Cons c rest)
  show ?case
  proof (cases "c = ''5''")
    case True
    have "Print ''Exiting navigation menu.'' \<noteq> menu_prompt" by (simp add: menu_prompt_def)
    with True show ?thesis by (simp add: navigation_menu_exit count_menu_lines)
  next
    case False
    with navigation_menu_round [OF assms, of c rest] obtain ev where
      ev: "ev \<noteq> menu_prompt"
      "navigation_menu d (c # rest) = prepend (menu_lines @ [ev]) (navigation_menu d rest)"
      by blast
    with False Cons.IH show ?thesis by (simp add: count_menu_lines)
  qed
qed

lemma plot_time_series_kind:
  "plot_time_series d m ttl = Inr ch \<Longrightarrow> \<exists>ls. ch = Line_chart ttl ls"
  by (auto simp: plot_time_series_def split: sum.splits option.splits)

lemma plot_dual_axis_kind:
  "plot_dual_axis d m1 m2 name1 name2 = Inr ch \<Longrightarrow> \<exists>ttl a b. ch = Dual_axis_chart ttl a b"
  by (auto simp: plot_dual_axis_def split: sum.splits option.splits)

lemma plot_death_vs_infection_kind:
  "plot_death_vs_infection d = Inr ch \<Longrightarrow>
     \<exists>ls. ch = Line_chart ''New Cases vs New Deaths Over Time'' ls"
  by (auto simp: plot_death_vs_infection_def split: sum.splits option.splits)

lemma choropleth_kind:
  "choropleth world lt = Inr ch \<Longrightarrow> \<exists>ttl vs. ch = Choropleth_chart ttl vs"
  by (auto simp: choropleth_def split: option.splits)

lemma list_all_display:
  assumes "\<And>ch. c = Inr ch \<Longrightarrow> Q (Show ch)" and "list_all Q (fst k)"
  shows "list_all Q (fst (display c k))"
  using assms by (cases c) (simp_all add: display_def)

lemma list_all_time_series:
  assumes "\<And>ls. Q (Show (Line_chart ttl ls))" and "list_all Q (fst k)"
  shows "list_all Q (fst (display (plot_time_series d m ttl) k))"
proof (rule list_all_display)
  fix ch
  assume "plot_time_series d m ttl = Inr ch"
  then obtain ls where "ch = Line_chart ttl ls" using plot_time_series_kind by blast
  with assms(1) show "Q (Show ch)" by simp
qed (rule assms(2))

lemma list_all_dual_axis:
  assumes "\<And>ttl a b. Q (Show (Dual_axis_chart ttl a b))" and "list_all Q (fst k)"
  shows "list_all Q (fst (display (plot_dual_axis d m1 m2 name1 name2) k))"
proof (rule list_all_display)
  fix ch
  assume "plot_dual_axis d m1 m2 name1 name2 = Inr ch"
  then obtain ttl a b where "ch = Dual_axis_chart ttl a b" using plot_dual_axis_kind by blast
  with assms(1) show "Q (Show ch)" by simp
qed (rule assms(2))

lemma list_all_death_vs_infection:
  assumes "\<And>ls. Q (Show (Line_chart ''New Cases vs New Deaths Over Time'' ls))"
    and "list_all Q (fst k)"
  shows "list_all Q (fst (display (plot_death_vs_infection d) k))"
proof (rule list_all_display)
  fix ch
  assume "plot_death_vs_infection d = Inr ch"
  then obtain ls where "ch = Line_chart ''New Cases vs New Deaths Over Time'' ls"
    using plot_death_vs_infection_kind by blast
  with assms(1) show "Q (Show ch)" by simp
qed (rule assms(2))

lemma list_all_choropleth:
  assumes "\<And>ttl vs. Q (Show (Choropleth_chart ttl vs))" and "list_all Q (fst k)"
  shows "list_all Q (fst (display (choropleth world lt) k))"
proof (rule list_all_display)
  fix ch
  assume "choropleth world lt = Inr ch"
  then obtain ttl vs where "ch = Choropleth_chart ttl vs" using choropleth_kind by blast
  with assms(1) show "Q (Show ch)" by simp
qed (rule assms(2))

lemma list_all_insights:
  assumes "\<And>s. Q (Print s)" and "\<And>t. Q (Print_table t)" and "list_all Q (fst k)"
  shows "list_all Q (fst (insights lt k))"
  using assms by (simp add: insights_def split: option.splits)

lemma list_all_vaccination_progress:
  assumes "\<And>ttl a b. ''total_vaccinations'' \<in> set (columns d) \<Longrightarrow> Q (Show (Dual_axis_chart ttl a b))"
    and "list_all Q (fst k)"
  shows "list_all Q (fst (vaccination_progress d k))"
proof (cases "''total_vaccinations'' \<in> set (columns d)")
  case True
  then have "vaccination_progress d k =
      display (plot_dual_axis d New_cases Total_vaccinations
        ''Daily New Cases'' ''Total Vaccinations'') k"
    by (simp add: vaccination_progress_def)
  with True assms show ?thesis by (simp add: list_all_dual_axis)
next
  case False
  with assms(2) show ?thesis by (simp add: vaccination_progress_def)
qed

lemma list_all_menu_lines:
  assumes "\<And>s. Q (Print s)" and "\<And>s. Q (Prompt s)"
  shows "list_all Q menu_lines"
  using assms by (simp add: menu_lines_def)

lemma list_all_navigation_menu:
  assumes p: "\<And>s. Q (Print s)" and q: "\<And>s. Q (Prompt s)"
    and l: "\<And>ttl ls. Q (Show (Line_chart ttl ls))"
    and v: "\<And>ttl a b. ''total_vaccinations'' \<in> set (columns d) \<Longrightarrow> Q (Show (Dual_axis_chart ttl a b))"
  shows "list_all Q (fst (navigation_menu d inputs))"
proof (induction inputs)
  case Nil
  show ?case by (simp add: list_all_menu_lines p q)
next
  case (Cons c rest)
  let ?k = "navigation_menu d rest"
  have m: "list_all Q menu_lines" by (rule list_all_menu_lines) (rule p q)+
  have 1: "list_all Q (fst (display (plot_time_series d Total_cases ''Total Cases Over Time'') ?k))"
    by (rule list_all_time_series) (rule l Cons.IH)+
  have 2: "list_all Q (fst (display (plot_time_series d Total_deaths ''Total Deaths Over Time'') ?k))"
    by (rule list_all_time_series) (rule l Cons.IH)+
  have 3: "list_all Q (fst (display (plot_dual_axis d New_cases Total_vaccinations
              ''Daily New Cases'' ''Total Vaccinations'') ?k))"
    if "''total_vaccinations'' \<in> set (columns d)"
    by (rule list_all_dual_axis) (rule v [OF that] Cons.IH)+
  have 4: "list_all Q (fst (display (plot_death_vs_infection d) ?k))"
    by (rule list_all_death_vs_infection) (rule l Cons.IH)+
  from m 1 2 3 4 p Cons.IH show ?case by simp
qed

lemma columns_df_filt [simp]: "columns (df_filt df) = columns df"
  by (simp add: df_filt_def)

lemma list_all_pipeline:
  assumes p: "\<And>s. Q (Print s)" and t: "\<And>t. Q (Print_table t)"
    and pl: "\<And>n cs. Q (Print_loaded n cs)" and pf: "\<And>n s e. Q (Print_filtering n s e)"
    and tc: "\<And>ls. Q (Show (Line_chart ''Total Cases Over Time'' ls))"
    and td: "\<And>ls. Q (Show (Line_chart ''Total Deaths Over Time'' ls))"
    and ch: "\<And>ttl vs. Q (Show (Choropleth_chart ttl vs))"
    and v: "\<And>df ttl a b. clean df0 = Inr df \<Longrightarrow> ''total_vaccinations'' \<in> set (columns df) \<Longrightarrow>
              Q (Show (Dual_axis_chart ttl a b))"
    and m: "\<And>df. clean df0 = Inr df \<Longrightarrow> list_all Q (fst (navigation_menu (df_filt df) inputs))"
  shows "list_all Q (fst (pipeline world inputs df0))"
proof (cases "clean df0")
  case (Inl e)
  then show ?thesis by (simp add: pipeline_def pl)
next
  case (Inr df)
  let ?d = "df_filt df"
  let ?k = "case latest df of Inl e \<Rightarrow> ([], Some e)
     | Inr lt \<Rightarrow> display (choropleth world lt) (insights lt (navigation_menu ?d inputs))"
  have k: "list_all Q (fst ?k)"
  proof (cases "latest df")
    case (Inl e)
    then show ?thesis by simp
  next
    case lt: (Inr lt)
    have i: "list_all Q (fst (insights lt (navigation_menu ?d inputs)))"
      by (rule list_all_insights) (rule p t m [OF Inr])+
    have "list_all Q (fst (display (choropleth world lt) (insights lt (navigation_menu ?d inputs))))"
    proof (rule list_all_choropleth)
      show "Q (Show (Choropleth_chart ttl vs))" for ttl vs by (rule ch)
    qed (rule i)
    with lt show ?thesis by simp
  qed
  have vp: "list_all Q (fst (vaccination_progress ?d ?k))"
  proof (rule list_all_vaccination_progress)
    fix ttl a b
    assume "''total_vaccinations'' \<in> set (columns ?d)"
    then have "''total_vaccinations'' \<in> set (columns df)" by simp
    from v [OF Inr this] show "Q (Show (Dual_axis_chart ttl a b))" .
  qed (rule k)
  have d2: "list_all Q (fst (display (plot_time_series ?d Total_deaths ''Total Deaths Over Time'')
      (vaccination_progress ?d ?k)))"
  proof (rule list_all_time_series)
    show "Q (Show (Line_chart ''Total Deaths Over Time'' ls))" for ls by (rule td)
  qed (rule vp)
  have "list_all Q (fst (display (plot_time_series ?d Total_cases ''Total Cases Over Time'')
     (display (plot_time_series ?d Total_deaths ''Total Deaths Over Time'')
      (vaccination_progress ?d ?k))))"
  proof (rule list_all_time_series)
    show "Q (Show (Line_chart ''Total Cases Over Time'' ls))" for ls by (rule tc)
  qed (rule d2)
  with Inr show ?thesis by (simp add: pipeline_def pl pf)
qed

lemma pipeline_first_charts:
  assumes c: "clean df0 = Inr df" and s: "set menu_columns \<subseteq> set (columns df)"
  shows "\<exists>ch1 ch2 out.
     plot_time_series (df_filt df) Total_cases ''Total Cases Over Time'' = Inr ch1 \<and>
     plot_time_series (df_filt df) Total_deaths ''Total Deaths Over Time'' = Inr ch2 \<and>
     fst (pipeline world inputs df0) =
       [Print_loaded (length (rows df0)) (columns df0),
        Print_filtering (length countries) start_date (max_date (rows df)),
        Show ch1, Show ch2] @ fst (vaccination_progress (df_filt df) out)"
proof -
  let ?d = "df_filt df"
  from s have cs: "''location'' \<in> set (columns ?d)" "''date'' \<in> set (columns ?d)"
    "''total_cases'' \<in> set (columns ?d)" "''total_deaths'' \<in> set (columns ?d)"
    by (simp_all add: menu_columns_def)
  from cs obtain ch1 where 1: "plot_time_series ?d Total_cases ''Total Cases Over Time'' = Inr ch1"
    by (simp add: plot_time_series_Inr)
  from cs obtain ch2 where 2: "plot_time_series ?d Total_deaths ''Total Deaths Over Time'' = Inr ch2"
    by (simp add: plot_time_series_Inr)
  from c 1 2 have "fst (pipeline world inputs df0) =
       [Print_loaded (length (rows df0)) (columns df0),
        Print_filtering (length countries) start_date (max_date (rows df)),
        Show ch1, Show ch2] @ fst (vaccination_progress ?d
          (case latest df of Inl e \<Rightarrow> ([], Some e)
           | Inr lt \<Rightarrow> display (choropleth world lt) (insights lt (navigation_menu ?d inputs))))"
    by (simp add: pipeline_def display_Inr)
  with 1 2 show ?thesis by blast
qed

lemma death_vs_infection_not_in_first_pass:
  "Show (Line_chart ''New Cases vs New Deaths Over Time'' ls) \<notin> set (fst (pipeline world [] df0))"
proof -
  let ?Q = "\<lambda>e. e \<noteq> Show (Line_chart ''New Cases vs New Deaths Over Time'' ls)"
  have "list_all ?Q (fst (pipeline world [] df0))"
    by (rule list_all_pipeline) (simp_all add: menu_lines_def)
  then show ?thesis by (auto simp: list_all_iff)
qed

lemma menu_chart_1:
  assumes "set menu_columns \<subseteq> set (columns d)"
  shows "\<exists>ch. plot_time_series d Total_cases ''Total Cases Over Time'' = Inr ch \<and>
     navigation_menu d (''1'' # rest) = prepend (menu_lines @ [Show ch]) (navigation_menu d rest) \<and>
     (clean df0 = Inr df \<and> d = df_filt df \<longrightarrow> Show ch \<in> set (fst (pipeline world [] df0)))"
proof -
  from assms have cs: "''location'' \<in> set (columns d)" "''date'' \<in> set (columns d)"
    "''total_cases'' \<in> set (columns d)"
    by (simp_all add: menu_columns_def)
  then obtain ch where ch: "plot_time_series d Total_cases ''Total Cases Over Time'' = Inr ch"
    by (simp add: plot_time_series_Inr)
  then have n: "navigation_menu d (''1'' # rest) =
      prepend (menu_lines @ [Show ch]) (navigation_menu d rest)"
    by (simp add: display_Inr prepend_prepend)
  have "Show ch \<in> set (fst (pipeline world [] df0))" if c: "clean df0 = Inr df" and d: "d = df_filt df"
  proof -
    from assms d have "set menu_columns \<subseteq> set (columns df)" by simp
    from pipeline_first_charts [OF c this, of world "[]"] ch d show ?thesis by auto
  qed
  with ch n show ?thesis by blast
qed

lemma menu_chart_2:
  assumes "set menu_columns \<subseteq> set (columns d)"
  shows "\<exists>ch. plot_time_series d Total_deaths ''Total Deaths Over Time'' = Inr ch \<and>
     navigation_menu d (''2'' # rest) = prepend (menu_lines @ [Show ch]) (navigation_menu d rest) \<and>
     (clean df0 = Inr df \<and> d = df_filt df \<longrightarrow> Show ch \<in> set (fst (pipeline world [] df0)))"
proof -
  from assms have cs: "''location'' \<in> set (columns d)" "''date'' \<in> set (columns d)"
    "''total_deaths'' \<in> set (columns d)"
    by (simp_all add: menu_columns_def)
  then obtain ch where ch: "plot_time_series d Total_deaths ''Total Deaths Over Time'' = Inr ch"
    by (simp add: plot_time_series_Inr)
  then have n: "navigation_menu d (''2'' # rest) =
      prepend (menu_lines @ [Show ch]) (navigation_menu d rest)"
    by (simp add: display_Inr prepend_prepend)
  have "Show ch \<in> set (fst (pipeline world [] df0))" if c: "clean df0 = Inr df" and d: "d = df_filt df"
  proof -
    from assms d have "set menu_columns \<subseteq> set (columns df)" by simp
    from pipeline_first_charts [OF c this, of world "[]"] ch d show ?thesis by auto
  qed
  with ch n show ?thesis by blast
qed

lemma menu_chart_3:
  assumes "set menu_columns \<subseteq> set (columns d)" and v: "''total_vaccinations'' \<in> set (columns d)"
  shows "\<exists>ch. plot_dual_axis d New_cases Total_vaccinations
         ''Daily New Cases'' ''Total Vaccinations'' = Inr ch \<and>
     navigation_menu d (''3'' # rest) = prepend (menu_lines @ [Show ch]) (navigation_menu d rest) \<and>
     (clean df0 = Inr df \<and> d = df_filt df \<longrightarrow> Show ch \<in> set (fst (pipeline world [] df0)))"
proof -
  from assms have cs: "''location'' \<in> set (columns d)" "''date'' \<in> set (columns d)"
    "''new_cases'' \<in> set (columns d)"
    by (simp_all add: menu_columns_def)
  with v obtain ch where ch: "plot_dual_axis d New_cases Total_vaccinations
         ''Daily New Cases'' ''Total Vaccinations'' = Inr ch"
    by (simp add: plot_dual_axis_Inr)
  with v have n: "navigation_menu d (''3'' # rest) =
      prepend (menu_lines @ [Show ch]) (navigation_menu d rest)"
    by (simp add: display_Inr prepend_prepend)
  have p: "fst (vaccination_progress d out) = Show ch # fst out" for out
    using v ch by (simp add: vaccination_progress_def display_Inr)
  have "Show ch \<in> set (fst (pipeline world [] df0))" if c: "clean df0 = Inr df" and d: "d = df_filt df"
  proof -
    from assms d have "set menu_columns \<subseteq> set (columns df)" by simp
    from pipeline_first_charts [OF c this, of world "[]"] obtain ch1 ch2 out where
      "fst (pipeline world [] df0) =
       [Print_loaded (length (rows df0)) (columns df0),
        Print_filtering (length countries) start_date (max_date (rows df)),
        Show ch1, Show ch2] @ fst (vaccination_progress (df_filt df) out)"
      by blast
    with p [of out] d show ?thesis by simp
  qed
  with ch n show ?thesis by blast
qed

lemma menu_chart_4:
  assumes "set menu_columns \<subseteq> set (columns d)"
  shows "\<exists>ch. plot_death_vs_infection d = Inr ch \<and>
     navigation_menu d (''4'' # rest) = prepend (menu_lines @ [Show ch]) (navigation_menu d rest) \<and>
     Show ch \<notin> set (fst (pipeline world [] df0))"
proof -
  from assms have cs: "''location'' \<in> set (columns d)" "''date'' \<in> set (columns d)"
    "''new_cases'' \<in> set (columns d)" "''new_deaths'' \<in> set (columns d)"
    by (simp_all add: menu_columns_def)
  then obtain ch where ch: "plot_death_vs_infection d = Inr ch"
    by (simp add: plot_death_vs_infection_Inr)
  then have n: "navigation_menu d (''4'' # rest) =
      prepend (menu_lines @ [Show ch]) (navigation_menu d rest)"
    by (simp add: display_Inr prepend_prepend)
  from ch obtain ls where "ch = Line_chart ''New Cases vs New Deaths Over Time'' ls"
    using plot_death_vs_infection_kind by blast
  then have "Show ch \<notin> set (fst (pipeline world [] df0))"
    by (simp add: death_vs_infection_not_in_first_pass)
  with ch n show ?thesis by blast
qed

text \<open>
  Claim C4, as amended. On a table that has the columns the charts of the menu read:
  the input \<open>5\<close> prints the farewell and ends the menu, whatever is typed after it; the
  inputs \<open>1\<close> and \<open>2\<close>, and \<open>3\<close> when the table has the column \<open>total_vaccinations\<close>,
  show again a chart that the first pass of the script has shown, and the menu goes on;
  the input \<open>4\<close> shows the chart of new cases and new deaths, which the first pass does
  not show, and the menu goes on; every other input, and \<open>3\<close> without that column,
  prints the message of an invalid choice, and the menu goes on. So the menu ends
  exactly when \<open>5\<close> is typed, and it has asked once for every input up to the first
  \<open>5\<close>, and once more when there is none.
\<close>

theorem navigation_menu_rounds:
  assumes "set menu_columns \<subseteq> set (columns d)"
  shows
    "navigation_menu d (''5'' # rest) = (menu_lines @ [Print ''Exiting navigation menu.''], None) \<and>
     (\<exists>ch. plot_time_series d Total_cases ''Total Cases Over Time'' = Inr ch \<and>
        navigation_menu d (''1'' # rest) = prepend (menu_lines @ [Show ch]) (navigation_menu d rest) \<and>
        (clean df0 = Inr df \<and> d = df_filt df \<longrightarrow> Show ch \<in> set (fst (pipeline world [] df0)))) \<and>
     (\<exists>ch. plot_time_series d Total_deaths ''Total Deaths Over Time'' = Inr ch \<and>
        navigation_menu d (''2'' # rest) = prepend (menu_lines @ [Show ch]) (navigation_menu d rest) \<and>
        (clean df0 = Inr df \<and> d = df_filt df \<longrightarrow> Show ch \<in> set (fst (pipeline world [] df0)))) \<and>
     (''total_vaccinations'' \<in> set (columns d) \<longrightarrow>
        (\<exists>ch. plot_dual_axis d New_cases Total_vaccinations
             ''Daily New Cases'' ''Total Vaccinations'' = Inr ch \<and>
           navigation_menu d (''3'' # rest) =
             prepend (menu_lines @ [Show ch]) (navigation_menu d rest) \<and>
           (clean df0 = Inr df \<and> d = df_filt df \<longrightarrow>
              Show ch \<in> set (fst (pipeline world [] df0))))) \<and>
     (\<exists>ch. plot_death_vs_infection d = Inr ch \<and>
        navigation_menu d (''4'' # rest) = prepend (menu_lines @ [Show ch]) (navigation_menu d rest) \<and>
        Show ch \<notin> set (fst (pipeline world [] df0))) \<and>
     (c \<notin> set [''1'', ''2'', ''4'', ''5''] \<and>
      (c = ''3'' \<longrightarrow> ''total_vaccinations'' \<notin> set (columns d)) \<longrightarrow>
        navigation_menu d (c # rest) =
          prepend (menu_lines @ [Print ''Invalid choice. Please try again.''])
            (navigation_menu d rest)) \<and>
     snd (navigation_menu d inputs) = (if ''5'' \<in> set inputs then None else Some EOFError) \<and>
     count_list (fst (navigation_menu d inputs)) menu_prompt =
       Suc (length (takeWhile (\<lambda>c. c \<noteq> ''5'') inputs))"
proof (intro conjI)
  show "navigation_menu d (''5'' # rest) = (menu_lines @ [Print ''Exiting navigation menu.''], None)"
    by (rule navigation_menu_exit)
  show "\<exists>ch. plot_time_series d Total_cases ''Total Cases Over Time'' = Inr ch \<and>
        navigation_menu d (''1'' # rest) = prepend (menu_lines @ [Show ch]) (navigation_menu d rest) \<and>
        (clean df0 = Inr df \<and> d = df_filt df \<longrightarrow> Show ch \<in> set (fst (pipeline world [] df0)))"
    by (rule menu_chart_1 [OF assms])
  show "\<exists>ch. plot_time_series d Total_deaths ''Total Deaths Over Time'' = Inr ch \<and>
        navigation_menu d (''2'' # rest) = prepend (menu_lines @ [Show ch]) (navigation_menu d rest) \<and>
        (clean df0 = Inr df \<and> d = df_filt df \<longrightarrow> Show ch \<in> set (fst (pipeline world [] df0)))"
    by (rule menu_chart_2 [OF assms])
  show "''total_vaccinations'' \<in> set (columns d) \<longrightarrow>
        (\<exists>ch. plot_dual_axis d New_cases Total_vaccinations
             ''Daily New Cases'' ''Total Vaccinations'' = Inr ch \<and>
           navigation_menu d (''3'' # rest) =
             prepend (menu_lines @ [Show ch]) (navigation_menu d rest) \<and>
           (clean df0 = Inr df \<and> d = df_filt df \<longrightarrow>
              Show ch \<in> set (fst (pipeline world [] df0))))"
    using menu_chart_3 [OF assms] by blast
  show "\<exists>ch. plot_death_vs_infection d = Inr ch \<and>
        navigation_menu d (''4'' # rest) = prepend (menu_lines @ [Show ch]) (navigation_menu d rest) \<and>
        Show ch \<notin> set (fst (pipeline world [] df0))"
    by (rule menu_chart_4 [OF assms])
  show "c \<notin> set [''1'', ''2'', ''4'', ''5''] \<and>
      (c = ''3'' \<longrightarrow> ''total_vaccinations'' \<notin> set (columns d)) \<longrightarrow>
        navigation_menu d (c # rest) =
          prepend (menu_lines @ [Print ''Invalid choice. Please try again.''])
            (navigation_menu d rest)"
  proof
    assume a: "c \<notin> set [''1'', ''2'', ''4'', ''5''] \<and>
      (c = ''3'' \<longrightarrow> ''total_vaccinations'' \<notin> set (columns d))"
    then have "c \<noteq> ''1''" "c \<noteq> ''2''" "c \<noteq> ''4''" "c \<noteq> ''5''"
      "c = ''3'' \<longrightarrow> ''total_vaccinations'' \<notin> set (columns d)"
      by simp_all
    then show "navigation_menu d (c # rest) =
          prepend (menu_lines @ [Print ''Invalid choice. Please try again.''])
            (navigation_menu d rest)"
      by (rule navigation_menu_invalid)
  qed
  show "snd (navigation_menu d inputs) = (if ''5'' \<in> set inputs then None else Some EOFError)"
    by (rule navigation_menu_ends [OF assms])
  show "count_list (fst (navigation_menu d inputs)) menu_prompt =
       Suc (length (takeWhile (\<lambda>c. c \<noteq> ''5'') inputs))"
    by (rule navigation_menu_prompts [OF assms])
qed

theorem navigation_menu_rounds_witness:
  "snd (navigation_menu full_table [''1'', ''9'', ''4'', ''5'', ''2'']) = None \<and>
   count_list (fst (navigation_menu full_table [''1'', ''9'', ''4'', ''5'', ''2''])) menu_prompt = 4 \<and>
   navigation_menu full_table [''1'', ''5''] =
     (menu_lines @
      [Show (Line_chart ''Total Cases Over Time''
         [\<lparr>legend = ''India'', dashed = False, points = [(Some 18629, Some 7)]\<rparr>])] @
      menu_lines @ [Print ''Exiting navigation menu.''], None)"
proof -
  have c: "set menu_columns \<subseteq> set (columns full_table)"
    by (simp add: menu_columns_def full_table_def)
  let ?i = "[''1'', ''9'', ''4'', ''5'', ''2'']"
  let ?ch = "Line_chart ''Total Cases Over Time''
         [\<lparr>legend = ''India'', dashed = False, points = [(Some 18629, Some 7)]\<rparr>]"
  from navigation_menu_rounds [OF c, where inputs = ?i]
  have "snd (navigation_menu full_table ?i) = (if ''5'' \<in> set ?i then None else Some EOFError)"
    and "count_list (fst (navigation_menu full_table ?i)) menu_prompt =
       Suc (length (takeWhile (\<lambda>c. c \<noteq> ''5'') ?i))"
    by blast+
  then have 1: "snd (navigation_menu full_table ?i) = None"
    and 2: "count_list (fst (navigation_menu full_table ?i)) menu_prompt = 4"
    by (simp_all del: navigation_menu.simps)
  have p: "plot_time_series full_table Total_cases ''Total Cases Over Time'' = Inr ?ch"
    by code_simp
  from navigation_menu_rounds [OF c, where rest = "[''5'']"]
  obtain ch where "plot_time_series full_table Total_cases ''Total Cases Over Time'' = Inr ch"
    and n: "navigation_menu full_table [''1'', ''5''] =
       prepend (menu_lines @ [Show ch]) (navigation_menu full_table [''5''])"
    by blast
  with p have ch: "ch = ?ch" by simp
  from navigation_menu_rounds [OF c, where rest = "[]"]
  have "navigation_menu full_table [''5''] = (menu_lines @ [Print ''Exiting navigation menu.''], None)"
    by blast
  with n ch have "navigation_menu full_table [''1'', ''5''] =
     (menu_lines @ [Show ?ch] @ menu_lines @ [Print ''Exiting navigation menu.''], None)"
    by (simp add: prepend_def del: navigation_menu.simps)
  with 1 2 show ?thesis by blast
qed

text \<open>
  Against claim C4 as it is worded: on a table without the column
  \<open>total_vaccinations\<close> the input \<open>3\<close> shows no chart; and on a table without the
  column \<open>new_cases\<close> the input \<open>4\<close> ends the menu, with a KeyError.
\<close>

theorem menu_without_columns:
  "''total_vaccinations'' \<notin> set (columns (df_filt two_countries_clean)) \<and>
   navigation_menu (df_filt two_countries_clean) [''3'', ''5''] =
     (menu_lines @ [Print ''Invalid choice. Please try again.''] @
      menu_lines @ [Print ''Exiting navigation menu.''], None) \<and>
   navigation_menu (df_filt two_countries_clean) [''4'', ''5''] =
     (menu_lines, Some (KeyError [''new_cases'']))"
  by code_simp

text \<open>
  Claim C9. When the filtered table has no column \<open>total_vaccinations\<close>, the input
  \<open>3\<close> prints the message of an invalid choice and the menu goes on; the first pass
  skips the dual-axis chart; and no dual-axis chart is shown in the whole run, whatever
  is typed at the menu.
\<close>

theorem vaccinations_column_absent:
  assumes "''total_vaccinations'' \<notin> set (columns d)"
  shows
    "navigation_menu d (''3'' # rest) =
       prepend (menu_lines @ [Print ''Invalid choice. Please try again.'']) (navigation_menu d rest) \<and>
     vaccination_progress d k = k \<and>
     list_all (\<lambda>e. \<not> is_dual_axis e) (fst (navigation_menu d inputs)) \<and>
     (clean df0 = Inr df \<and> d = df_filt df \<longrightarrow>
        list_all (\<lambda>e. \<not> is_dual_axis e) (fst (pipeline world inputs df0)))"
proof (intro conjI impI)
  show "navigation_menu d (''3'' # rest) =
       prepend (menu_lines @ [Print ''Invalid choice. Please try again.'']) (navigation_menu d rest)"
    using assms by (simp add: prepend_prepend)
  show "vaccination_progress d k = k"
    using assms by (simp add: vaccination_progress_def)
  show m: "list_all (\<lambda>e. \<not> is_dual_axis e) (fst (navigation_menu d inputs))"
    by (rule list_all_navigation_menu) (use assms in simp_all)
  assume "clean df0 = Inr df \<and> d = df_filt df"
  then have c: "clean df0 = Inr df" and d: "d = df_filt df" by simp_all
  show "list_all (\<lambda>e. \<not> is_dual_axis e) (fst (pipeline world inputs df0))"
  proof (rule list_all_pipeline)
    fix df' ttl a b
    assume "clean df0 = Inr df'" and v: "''total_vaccinations'' \<in> set (columns df')"
    with c have "df' = df" by simp
    with v d assms show "\<not> is_dual_axis (Show (Dual_axis_chart ttl a b))" by simp
  next
    fix df'
    assume "clean df0 = Inr df'"
    with c have "df' = df" by simp
    with m d show "list_all (\<lambda>e. \<not> is_dual_axis e) (fst (navigation_menu (df_filt df') inputs))"
      by simp
  qed simp_all
qed

theorem vaccinations_column_absent_witness:
  "vaccination_progress (df_filt two_countries_clean) ([], None) = ([], None) \<and>
   list_all (\<lambda>e. \<not> is_dual_axis e) (fst (pipeline [usa, fiji] [''3'', ''5''] two_countries))"
proof -
  have a: "''total_vaccinations'' \<notin> set (columns (df_filt two_countries_clean))"
    by (simp add: two_countries_clean_def)
  have c: "clean two_countries = Inr two_countries_clean"
    by code_simp
  from vaccinations_column_absent [OF a, of _ "([], None)" "[''3'', ''5'']" two_countries
      two_countries_clean "[usa, fiji]"] c
  show ?thesis by blast
qed

end
